theory Spec2Isabelle
  imports Main "HOL-Library.Monad_Syntax"
begin

section \<open>Branch protection preset catalog (src/constants/branchProtectionPresets.ts)\<close>

text \<open>
  The catalog is a set of module-level object literals, and \<open>getBranchProtectionPreset\<close>
  copies one of them with the spread operator and then assigns through the copy.
  Whether that assignment reaches the static template depends on which objects are shared,
  so objects live in an explicit store: an address is an index into the store, an object
  is a list of named properties or an array, and a property holds a primitive or the
  address of another object.  Reading a property of something that is not an object is
  the \<open>TypeError\<close> of JavaScript and is \<open>None\<close> here.
\<close>

type_synonym addr = nat

datatype jsval = JStr string | JBool bool | JNum int | JRef addr

datatype jsobj = JObject "(string \<times> jsval) list" | JArray "jsval list"

type_synonym heap = "jsobj list"

datatype BranchProtectionPreset = strict | moderate | minimal

definition alloc :: "heap \<Rightarrow> jsobj \<Rightarrow> jsval \<times> heap" where
  "alloc h ob = (JRef (length h), h @ [ob])"

definition deref :: "heap \<Rightarrow> jsval \<Rightarrow> jsobj option" where
  "deref h v = (case v of JRef a \<Rightarrow> (if a < length h then Some (h ! a) else None) | _ \<Rightarrow> None)"

fun upd_prop :: "string \<Rightarrow> jsval \<Rightarrow> (string \<times> jsval) list \<Rightarrow> (string \<times> jsval) list" where
  "upd_prop k x [] = [(k, x)]"
| "upd_prop k x ((k', y) # ps) = (if k' = k then (k, x) # ps else (k', y) # upd_prop k x ps)"

definition get_prop :: "heap \<Rightarrow> jsval \<Rightarrow> string \<Rightarrow> jsval option" where
  "get_prop h v k = (case deref h v of Some (JObject ps) \<Rightarrow> map_of ps k | _ \<Rightarrow> None)"

definition set_prop :: "heap \<Rightarrow> jsval \<Rightarrow> string \<Rightarrow> jsval \<Rightarrow> heap option" where
  "set_prop h v k x =
     (case v of
        JRef a \<Rightarrow>
          (if a < length h then
             (case h ! a of
                JObject ps \<Rightarrow> Some (h[a := JObject (upd_prop k x ps)])
              | JArray _ \<Rightarrow> None)
           else None)
      | _ \<Rightarrow> None)"

text \<open>
  One preset literal.  The three literals of the source differ in the name and in four of
  the five parameters of the pull-request rule; everything else is written out the same
  way three times.  \<open>preset_literal\<close> allocates the objects of one literal, inner ones
  first, and returns the address of the outer object.
\<close>

definition preset_literal ::
  "string \<Rightarrow> bool \<Rightarrow> bool \<Rightarrow> int \<Rightarrow> bool \<Rightarrow> heap \<Rightarrow> jsval \<times> heap" where
  "preset_literal nm dismiss lastpush approvals threads h0 =
     (let (inc, h1) = alloc h0 (JArray []);
          (exc, h2) = alloc h1 (JArray []);
          (rn, h3) = alloc h2 (JObject [(''include'', inc), (''exclude'', exc)]);
          (conds, h4) = alloc h3 (JObject [(''ref_name'', rn)]);
          (params, h5) = alloc h4 (JObject
             [(''dismiss_stale_reviews_on_push'', JBool dismiss),
              (''require_code_owner_review'', JBool False),
              (''require_last_push_approval'', JBool lastpush),
              (''required_approving_review_count'', JNum approvals),
              (''required_review_thread_resolution'', JBool threads)]);
          (pr, h6) = alloc h5 (JObject [(''type'', JStr ''pull_request''), (''parameters'', params)]);
          (nff, h7) = alloc h6 (JObject [(''type'', JStr ''non_fast_forward'')]);
          (rules, h8) = alloc h7 (JArray [pr, nff])
      in alloc h8 (JObject
           [(''name'', JStr nm), (''target'', JStr ''branch''), (''enforcement'', JStr ''active''),
            (''conditions'', conds), (''rules'', rules)]))"

text \<open>
  The state of the module after it has been loaded: \<open>strictProtection\<close>,
  \<open>moderateProtection\<close>, \<open>minimalProtection\<close> and the record
  \<open>BRANCH_PROTECTION_PRESETS\<close> that maps the preset names to them.
\<close>

definition module_init :: "jsval \<times> heap" where
  "module_init =
     (let (strictProtection, h1) =
            preset_literal ''Branch protection rules (strict)'' True True 2 True [];
          (moderateProtection, h2) =
            preset_literal ''Branch protection rules (moderate)'' True True 1 True h1;
          (minimalProtection, h3) =
            preset_literal ''Branch protection rules (minimal)'' False False 1 False h2
      in alloc h3 (JObject
           [(''strict'', strictProtection), (''moderate'', moderateProtection),
            (''minimal'', minimalProtection)]))"

definition BRANCH_PROTECTION_PRESETS :: jsval where
  "BRANCH_PROTECTION_PRESETS = fst module_init"

definition module_heap :: heap where
  "module_heap = snd module_init"

fun preset_key :: "BranchProtectionPreset \<Rightarrow> string" where
  "preset_key strict = ''strict''"
| "preset_key moderate = ''moderate''"
| "preset_key minimal = ''minimal''"

text \<open>
  \<open>getBranchProtectionPreset(preset, targetBranch = 'master')\<close>: the argument is optional,
  \<open>None\<close> is the call that leaves it out.  The spread \<open>{...BRANCH_PROTECTION_PRESETS[preset]}\<close>
  allocates one new object holding the same property values as the template (so the same
  addresses for \<open>conditions\<close> and \<open>rules\<close>); the assignment then goes through
  \<open>config.conditions.ref_name\<close>.
\<close>

definition getBranchProtectionPreset ::
  "BranchProtectionPreset \<Rightarrow> string option \<Rightarrow> heap \<Rightarrow> (jsval \<times> heap) option" where
  "getBranchProtectionPreset preset targetBranch h =
     (let tb = (case targetBranch of None \<Rightarrow> ''master'' | Some b \<Rightarrow> b) in
      do {
        template \<leftarrow> get_prop h BRANCH_PROTECTION_PRESETS (preset_key preset);
        ob \<leftarrow> deref h template;
        let (config, h1) = alloc h ob;
        conds \<leftarrow> get_prop h1 config ''conditions'';
        rn \<leftarrow> get_prop h1 conds ''ref_name'';
        let (arr, h2) = alloc h1 (JArray [JStr (''refs/heads/'' @ tb)]);
        h3 \<leftarrow> set_prop h2 rn ''include'' arr;
        Some (config, h3)
      })"

text \<open>
  What a caller sees when it reads a ruleset object: the document as a value, every
  reference followed.  This is also what is serialised into the create-ruleset request.
\<close>

record rule_doc =
  rule_type :: string
  parameters :: "(string \<times> jsval) list option"

record ruleset_doc =
  rs_name :: string
  rs_target :: string
  rs_enforcement :: string
  rs_include :: "string list"
  rs_exclude :: "string list"
  rs_rules :: "rule_doc list"

fun the_str :: "jsval \<Rightarrow> string option" where
  "the_str (JStr s) = Some s"
| "the_str _ = None"

fun all_some :: "'a option list \<Rightarrow> 'a list option" where
  "all_some [] = Some []"
| "all_some (None # xs) = None"
| "all_some (Some x # xs) = (case all_some xs of None \<Rightarrow> None | Some ys \<Rightarrow> Some (x # ys))"

definition read_strings :: "heap \<Rightarrow> jsval \<Rightarrow> string list option" where
  "read_strings h v =
     (case deref h v of Some (JArray vs) \<Rightarrow> all_some (map the_str vs) | _ \<Rightarrow> None)"

definition read_rule :: "heap \<Rightarrow> jsval \<Rightarrow> rule_doc option" where
  "read_rule h v =
     do {
       t \<leftarrow> get_prop h v ''type'';
       ty \<leftarrow> the_str t;
       (case get_prop h v ''parameters'' of
          None \<Rightarrow> Some \<lparr>rule_type = ty, parameters = None\<rparr>
        | Some p \<Rightarrow>
            (case deref h p of
               Some (JObject ps) \<Rightarrow> Some \<lparr>rule_type = ty, parameters = Some ps\<rparr>
             | _ \<Rightarrow> None))
     }"

definition read_ruleset :: "heap \<Rightarrow> jsval \<Rightarrow> ruleset_doc option" where
  "read_ruleset h v =
     do {
       n \<leftarrow> get_prop h v ''name''; nm \<leftarrow> the_str n;
       t \<leftarrow> get_prop h v ''target''; tg \<leftarrow> the_str t;
       e \<leftarrow> get_prop h v ''enforcement''; en \<leftarrow> the_str e;
       conds \<leftarrow> get_prop h v ''conditions'';
       rn \<leftarrow> get_prop h conds ''ref_name'';
       i \<leftarrow> get_prop h rn ''include''; inc \<leftarrow> read_strings h i;
       x \<leftarrow> get_prop h rn ''exclude''; exc \<leftarrow> read_strings h x;
       r \<leftarrow> get_prop h v ''rules'';
       rs \<leftarrow> (case deref h r of Some (JArray vs) \<Rightarrow> all_some (map (read_rule h) vs) | _ \<Rightarrow> None);
       Some \<lparr>rs_name = nm, rs_target = tg, rs_enforcement = en,
             rs_include = inc, rs_exclude = exc, rs_rules = rs\<rparr>
     }"

text \<open>The template of a preset as it stands in the catalog of a given store.\<close>

definition catalog_entry :: "heap \<Rightarrow> BranchProtectionPreset \<Rightarrow> ruleset_doc option" where
  "catalog_entry h p =
     do { t \<leftarrow> get_prop h BRANCH_PROTECTION_PRESETS (preset_key p); read_ruleset h t }"

text \<open>A sequence of calls made one after the other by the same process.\<close>

fun calls :: "(BranchProtectionPreset \<times> string option) list \<Rightarrow> heap \<Rightarrow> heap option" where
  "calls [] h = Some h"
| "calls ((p, b) # cs) h =
     (case getBranchProtectionPreset p b h of None \<Rightarrow> None | Some (_, h') \<Rightarrow> calls cs h')"

definition rule_param :: "ruleset_doc \<Rightarrow> string \<Rightarrow> string \<Rightarrow> jsval option" where
  "rule_param doc ty k =
     (case find (\<lambda>r. rule_type r = ty) (rs_rules doc) of
        None \<Rightarrow> None
      | Some r \<Rightarrow> (case parameters r of None \<Rightarrow> None | Some ps \<Rightarrow> map_of ps k))"

text \<open>
  The catalog part of a store in which the three \<open>include\<close> properties hold arbitrary
  values: every call of \<open>getBranchProtectionPreset\<close> leaves the store in this shape,
  followed by the objects allocated since the module was loaded.
\<close>

definition catalog_heap :: "jsval \<Rightarrow> jsval \<Rightarrow> jsval \<Rightarrow> heap" where
  "catalog_heap v1 v2 v3 =
     module_heap[2 := JObject [(''include'', v1), (''exclude'', JRef 1)],
                 11 := JObject [(''include'', v2), (''exclude'', JRef 10)],
                 20 := JObject [(''include'', v3), (''exclude'', JRef 19)]]"

definition target_of :: "string option \<Rightarrow> string" where
  "target_of b = (case b of None \<Rightarrow> ''master'' | Some t \<Rightarrow> t)"


text \<open>
  The store after a call of \<open>getBranchProtectionPreset\<close> on a store of that shape with
  \<open>ext\<close> allocated since: the \<open>include\<close> of the preset points to the new array, and the
  copy and the array are the two new objects.
\<close>

definition after_call :: "BranchProtectionPreset \<Rightarrow> string \<Rightarrow> jsval \<Rightarrow> jsval \<Rightarrow> jsval \<Rightarrow> heap \<Rightarrow> heap" where
  "after_call p s v1 v2 v3 ext =
     (case p of
        strict \<Rightarrow> catalog_heap (JRef (29 + length ext)) v2 v3
      | moderate \<Rightarrow> catalog_heap v1 (JRef (29 + length ext)) v3
      | minimal \<Rightarrow> catalog_heap v1 v2 (JRef (29 + length ext))) @
     ext @ [catalog_heap v1 v2 v3 ! (case p of strict \<Rightarrow> 8 | moderate \<Rightarrow> 17 | minimal \<Rightarrow> 26),
            JArray [JStr s]]"


section \<open>Case normalizer (util/caseConverter.ts)\<close>

text \<open>
  Modelled from the spec: the case normalizer of section 4.2, whose source file
  \<open>src/util/caseConverter.ts\<close> is not among the sources; only its unit test is
  (\<open>src/unnamed/part_001\<close>, see \<open>caseConverter_tests\<close> below).  The character classes
  are the ASCII ranges \<open>A-Z\<close>, \<open>a-z\<close> and \<open>0-9\<close>, and upper-casing acts on \<open>a-z\<close> only.
\<close>

definition is_upper :: "char \<Rightarrow> bool" where
  "is_upper c \<longleftrightarrow> 65 \<le> (of_char c :: nat) \<and> (of_char c :: nat) \<le> 90"

definition is_lower :: "char \<Rightarrow> bool" where
  "is_lower c \<longleftrightarrow> 97 \<le> (of_char c :: nat) \<and> (of_char c :: nat) \<le> 122"

definition is_digit :: "char \<Rightarrow> bool" where
  "is_digit c \<longleftrightarrow> 48 \<le> (of_char c :: nat) \<and> (of_char c :: nat) \<le> 57"

definition to_upper :: "char \<Rightarrow> char" where
  "to_upper c = (if is_lower c then char_of (of_char c - (32::nat)) else c)"

text \<open>
  Modelled from the spec: where a separator is inserted, between \<open>x\<close> and \<open>y\<close> when \<open>zs\<close>
  is what follows \<open>y\<close>.  Section 4.2 names three places.

  \<^item> \<^emph>\<open>Every lower-to-upper transition\<close>: the first disjunct.

  \<^item> \<^emph>\<open>Before a single trailing uppercase letter that follows a run of uppercase
    letters and precedes a lowercase letter\<close> (\<open>HTTPSConnection\<close>, \<open>APIKey\<close>): the second
    disjunct.  A digit counts with the run there.  This is the one addition to the words
    of the specification, and the unit test asks for it: \<open>value123Name\<close> has to give
    \<open>VALUE123_NAME\<close>, with a separator between \<open>3\<close> and \<open>N\<close>, and no rule of section 4.2
    puts one there.

  \<^item> \<^emph>\<open>Every letter-to-digit transition\<close>: left out.  The same line of the unit test
    excludes it after a lower-case letter (\<open>e\<close> and \<open>1\<close> stay together in
    \<open>VALUE123_NAME\<close>).  After an upper-case letter no test decides; there the rule would
    contradict two other sentences of the specification, that already-uppercase input
    with underscores is returned unchanged (\<open>A1_B\<close> would become \<open>A_1_B\<close>) and that the
    normalizer is idempotent (\<open>a1\<close> gives \<open>A1\<close>, which would give \<open>A_1\<close>), so it is left
    out there as well.

  With this definition an input without lower-case letters gets no separator at all.
\<close>

definition boundary :: "char \<Rightarrow> char \<Rightarrow> string \<Rightarrow> bool" where
  "boundary x y zs \<longleftrightarrow>
     is_lower x \<and> is_upper y \<or>
     (is_upper x \<or> is_digit x) \<and> is_upper y \<and>
       (case zs of [] \<Rightarrow> False | z # _ \<Rightarrow> is_lower z)"

fun insert_separators :: "string \<Rightarrow> string" where
  "insert_separators (x # y # zs) =
     (if boundary x y zs then x # CHR ''_'' # insert_separators (y # zs)
      else x # insert_separators (y # zs))"
| "insert_separators xs = xs"

definition separator :: "char \<Rightarrow> char" where
  "separator c = (if c = CHR ''-'' then CHR ''_'' else c)"

fun collapse :: "string \<Rightarrow> string" where
  "collapse (x # y # zs) =
     (if x = CHR ''_'' \<and> y = CHR ''_'' then collapse (y # zs) else x # collapse (y # zs))"
| "collapse xs = xs"

text \<open>
  Modelled from the spec: \<open>toUpperSnakeCase\<close>, the steps of section 4.2 in their order:
  insert separators, replace \<open>-\<close> and \<open>_\<close> by the separator, collapse repeated separators,
  upper-case the result.
\<close>

definition toUpperSnakeCase :: "string \<Rightarrow> string" where
  "toUpperSnakeCase str = map to_upper (collapse (map separator (insert_separators str)))"

text \<open>
  The expectations of the unit test \<open>src/unnamed/part_001\<close>, input and expected output,
  in the order of the file.
\<close>

definition caseConverter_tests :: "(string \<times> string) list" where
  "caseConverter_tests =
     [(''myVariableName'', ''MY_VARIABLE_NAME''),
      (''value123Name'', ''VALUE123_NAME''),
      (''variable'', ''VARIABLE''),
      (''MyVariableName'', ''MY_VARIABLE_NAME''),
      (''APIKey'', ''API_KEY''),
      (''awsAccountId'', ''AWS_ACCOUNT_ID''),
      (''HTTPSConnection'', ''HTTPS_CONNECTION''),
      (''clusterNameEast'', ''CLUSTER_NAME_EAST''),
      (''nodeEnvProduction'', ''NODE_ENV_PRODUCTION''),
      (''ALREADY_UPPER'', ''ALREADY_UPPER''),
      ([], []),
      (''a'', ''A''),
      (''A'', ''A'')]"



section \<open>Secret sealer (src/util/secretEncryption.ts)\<close>

text \<open>
  \<open>encryptSecret\<close> is four calls into libsodium.  The library is not part of the
  repository, so its functions are parameters; \<open>crypto_box_seal\<close> draws an ephemeral key
  pair from the random generator of the process, which is part of the world state
  \<open>'w\<close>.  A call of the library that throws is \<open>Inl\<close> with the message.
\<close>

type_synonym bytes = "nat list"

record 'w sodium =
  from_string :: "string \<Rightarrow> bytes"
  from_base64 :: "string \<Rightarrow> string + bytes"
  crypto_box_seal :: "bytes \<Rightarrow> bytes \<Rightarrow> 'w \<Rightarrow> (string + bytes) \<times> 'w"
  to_base64 :: "bytes \<Rightarrow> string"

definition encryptSecret :: "'w sodium \<Rightarrow> string \<Rightarrow> string \<Rightarrow> 'w \<Rightarrow> (string + string) \<times> 'w" where
  "encryptSecret so publicKey secretValue w =
     (let messageBytes = from_string so secretValue in
      case from_base64 so publicKey of
        Inl e \<Rightarrow> (Inl e, w)
      | Inr keyBytes \<Rightarrow>
          (case crypto_box_seal so messageBytes keyBytes w of
             (Inl e, w') \<Rightarrow> (Inl e, w')
           | (Inr encryptedBytes, w') \<Rightarrow> (Inr (to_base64 so encryptedBytes), w')))"


section \<open>Productionalization types (src/api/types/productionalization.ts)\<close>

text \<open>
  A field marked \<open>?\<close> in the source is an \<open>option\<close>.  Field names that several types of
  the source share (\<open>name\<close>, \<open>value\<close>, \<open>teamSlug\<close>, \<open>success\<close>, \<open>error\<close>, ...) carry a
  prefix here, since a record field is a constant of the theory.
\<close>

datatype TeamPermission = pull | triage | push | maintain | admin

record TeamPermissionConfig =
  teamSlug :: string
  permission :: TeamPermission

datatype ReviewerType = User | Team

record EnvironmentReviewer =
  reviewer_type :: ReviewerType
  slug :: string

record EnvironmentConfig =
  env_name :: string
  waitTimer :: "int option"
  reviewers :: "EnvironmentReviewer list option"
  preventSelfReview :: "bool option"

record EnvironmentVariable =
  var_name :: string
  var_value :: string

record EnvironmentVariables =
  environmentName :: string
  variables :: "EnvironmentVariable list"

record RepositorySecret =
  secret_name :: string
  secret_value :: string

record ProductionalizationConfig =
  teamPermissions :: "TeamPermissionConfig list option"
  topics :: "string list option"
  environments :: "EnvironmentConfig list option"
  environmentVariables :: "EnvironmentVariables list option"
  branchProtectionPreset :: "BranchProtectionPreset option"
  branchProtectionTargetBranch :: "string option"
  secrets :: "RepositorySecret list option"

record TeamPermissionResult =
  tp_teamSlug :: string
  tp_success :: bool
  tp_error :: "string option"

record EnvironmentCreationResult =
  ec_environment :: string
  ec_success :: bool
  ec_error :: "string option"

record EnvironmentVariableResult =
  ev_environment :: string
  ev_variable :: string
  ev_success :: bool
  ev_error :: "string option"

record SecretCreationResult =
  sc_secret :: string
  sc_success :: bool
  sc_error :: "string option"

record ProductionalizationResult =
  res_teamPermissions :: "TeamPermissionResult list"
  topicsAdded :: bool
  topicsError :: "string option"
  environmentsCreated :: "string list"
  environmentErrors :: "EnvironmentCreationResult list"
  variablesCreated :: nat
  variableErrors :: "EnvironmentVariableResult list"
  branchProtectionCreated :: bool
  branchProtectionError :: "string option"
  secretsCreated :: nat
  secretErrors :: "SecretCreationResult list"

text \<open>The configuration \<open>{}\<close>.\<close>

definition empty_config :: ProductionalizationConfig where
  "empty_config =
     \<lparr>teamPermissions = None, topics = None, environments = None,
      environmentVariables = None, branchProtectionPreset = None,
      branchProtectionTargetBranch = None, secrets = None\<rparr>"


section \<open>Productionalization orchestrator (api/services/productionalizationService.ts)\<close>

text \<open>
  Modelled from the spec: the service itself is not among the sources (its unit test
  and the types it works on are); the definitions of this section follow section 4.6 of
  the specification, stage by stage, and say so one by one.

  The remote platform is a parameter: a function from the state of the world and a
  request to an outcome and the next state of the world, so that the same request may
  succeed once and fail the next time, as the mocks of the unit test do.  A failure
  carries its message and whether it says that the entity already exists.  The
  orchestrator keeps the list of the requests it has issued, each with the message of
  its failure if it failed.  Logging and the fixed delays between calls are left out.
\<close>

datatype request =
    AddOrUpdateRepoPermissionsInOrg string string string string TeamPermission
  | GetAllTopics string string
  | ReplaceAllTopics string string "string list"
  | GetTeamByName string string
  | GetUserByUsername string
  | CreateOrUpdateEnvironment string string string "int option"
      "(ReviewerType \<times> nat) list option" "bool option"
  | CreateEnvironmentVariable string string string string string
  | UpdateEnvironmentVariable string string string string string
  | CreateRepoRuleset string string ruleset_doc
  | GetRepoPublicKey string string
  | CreateOrUpdateRepoSecret string string string string string

datatype response = Ack | Names "string list" | Ident nat | PublicKey string string

record remote_error =
  message :: string
  alreadyExists :: bool

type_synonym 'w remote = "'w \<Rightarrow> request \<Rightarrow> (remote_error + response) \<times> 'w"

record 'w ostate =
  world :: 'w
  issued :: "(request \<times> string option) list"
  store :: heap

definition initial_state :: "'w \<Rightarrow> 'w ostate" where
  "initial_state w = \<lparr>world = w, issued = [], store = module_heap\<rparr>"

definition failure_of :: "remote_error + response \<Rightarrow> string option" where
  "failure_of r = (case r of Inl e \<Rightarrow> Some (message e) | Inr _ \<Rightarrow> None)"

definition perform :: "'w remote \<Rightarrow> request \<Rightarrow> 'w ostate \<Rightarrow> (remote_error + response) \<times> 'w ostate" where
  "perform rem req st =
     (let (r, w') = rem (world st) req
      in (r, st\<lparr>world := w', issued := issued st @ [(req, failure_of r)]\<rparr>))"

text \<open>
  Modelled from the spec: stage 1 of section 4.6.  For each configured team in input
  order one add-or-update call \<open>{org: owner, team, owner, repo, permission}\<close>; the outcome
  is recorded per team, a failure as \<open>{teamSlug, success: false, error: message}\<close>.
\<close>

fun addTeamPermissions ::
  "'w remote \<Rightarrow> string \<Rightarrow> string \<Rightarrow> TeamPermissionConfig list \<Rightarrow> 'w ostate
     \<Rightarrow> TeamPermissionResult list \<times> 'w ostate" where
  "addTeamPermissions rem owner repo [] st = ([], st)"
| "addTeamPermissions rem owner repo (t # ts) st =
     (let (r, st1) = perform rem
            (AddOrUpdateRepoPermissionsInOrg owner (teamSlug t) owner repo (permission t)) st;
          entry = (case r of
                     Inr _ \<Rightarrow> \<lparr>tp_teamSlug = teamSlug t, tp_success = True, tp_error = None\<rparr>
                   | Inl e \<Rightarrow> \<lparr>tp_teamSlug = teamSlug t, tp_success = False,
                                tp_error = Some (message e)\<rparr>);
          (entries, st2) = addTeamPermissions rem owner repo ts st1
      in (entry # entries, st2))"

text \<open>
  Modelled from the spec: stage 2.  Fetch the existing topics, take the union with the
  configured ones (a set union that keeps the first occurrence of each), replace the
  topic set.  A failure of either call gives \<open>topicsAdded = false\<close> and the message.  A
  payload of the wrong shape is the \<open>TypeError\<close> the stage would catch.
\<close>

definition union_topics :: "string list \<Rightarrow> string list \<Rightarrow> string list" where
  "union_topics existing configured = rev (remdups (rev (existing @ configured)))"

definition addTopics ::
  "'w remote \<Rightarrow> string \<Rightarrow> string \<Rightarrow> string list \<Rightarrow> 'w ostate
     \<Rightarrow> (bool \<times> string option) \<times> 'w ostate" where
  "addTopics rem owner repo ts st =
     (let (r1, st1) = perform rem (GetAllTopics owner repo) st in
      case r1 of
        Inl e \<Rightarrow> ((False, Some (message e)), st1)
      | Inr (Names existing) \<Rightarrow>
          (let (r2, st2) = perform rem (ReplaceAllTopics owner repo (union_topics existing ts)) st1 in
           case r2 of
             Inl e \<Rightarrow> ((False, Some (message e)), st2)
           | Inr _ \<Rightarrow> ((True, None), st2))
      | Inr _ \<Rightarrow> ((False, Some ''TypeError''), st1))"

text \<open>
  Modelled from the spec: stage 3.  Each reviewer is resolved to an id, a team by
  organisation and slug, a user by name; the first resolution that fails fails the whole
  environment.  Then the create-or-update call with the wait timer, the resolved
  reviewers and the self-review flag.
\<close>

fun resolveReviewers ::
  "'w remote \<Rightarrow> string \<Rightarrow> EnvironmentReviewer list \<Rightarrow> 'w ostate
     \<Rightarrow> (string + (ReviewerType \<times> nat) list) \<times> 'w ostate" where
  "resolveReviewers rem owner [] st = (Inr [], st)"
| "resolveReviewers rem owner (rv # rvs) st =
     (let (r, st1) = perform rem
            (case reviewer_type rv of
               Team \<Rightarrow> GetTeamByName owner (slug rv)
             | User \<Rightarrow> GetUserByUsername (slug rv)) st
      in case r of
           Inl e \<Rightarrow> (Inl (message e), st1)
         | Inr (Ident i) \<Rightarrow>
             (case resolveReviewers rem owner rvs st1 of
                (Inl m, st2) \<Rightarrow> (Inl m, st2)
              | (Inr ids, st2) \<Rightarrow> (Inr ((reviewer_type rv, i) # ids), st2))
         | Inr _ \<Rightarrow> (Inl ''TypeError'', st1))"

definition createEnvironment ::
  "'w remote \<Rightarrow> string \<Rightarrow> string \<Rightarrow> EnvironmentConfig \<Rightarrow> 'w ostate \<Rightarrow> string option \<times> 'w ostate" where
  "createEnvironment rem owner repo env st =
     (let (resolved, st1) =
            (case reviewers env of
               None \<Rightarrow> (Inr None, st)
             | Some rvs \<Rightarrow>
                 (case resolveReviewers rem owner rvs st of
                    (Inl m, s) \<Rightarrow> (Inl m, s)
                  | (Inr ids, s) \<Rightarrow> (Inr (Some ids), s)))
      in case resolved of
           Inl m \<Rightarrow> (Some m, st1)
         | Inr ids \<Rightarrow>
             (let (r, st2) = perform rem
                    (CreateOrUpdateEnvironment owner repo (env_name env) (waitTimer env) ids
                       (preventSelfReview env)) st1
              in (failure_of r, st2)))"

fun createEnvironments ::
  "'w remote \<Rightarrow> string \<Rightarrow> string \<Rightarrow> EnvironmentConfig list \<Rightarrow> 'w ostate
     \<Rightarrow> (string list \<times> EnvironmentCreationResult list) \<times> 'w ostate" where
  "createEnvironments rem owner repo [] st = (([], []), st)"
| "createEnvironments rem owner repo (env # envs) st =
     (let (failed, st1) = createEnvironment rem owner repo env st;
          ((created, errors), st2) = createEnvironments rem owner repo envs st1
      in case failed of
           None \<Rightarrow> ((env_name env # created, errors), st2)
         | Some m \<Rightarrow>
             ((created,
               \<lparr>ec_environment = env_name env, ec_success = False, ec_error = Some m\<rparr> # errors),
              st2))"

text \<open>
  Modelled from the spec: stage 4.  A block is processed when its environment is one of
  the configured environments of this run and the creation of that environment did not
  fail in stage 3; a block that is not processed issues no call and records nothing.
  For each variable of a processed block the name is normalised, the variable is
  created, and when the creation fails because the variable already exists it is
  updated instead.  A variable counts as created or is recorded as an error with the
  normalised name.
\<close>

definition setVariable ::
  "'w remote \<Rightarrow> string \<Rightarrow> string \<Rightarrow> string \<Rightarrow> EnvironmentVariable \<Rightarrow> 'w ostate
     \<Rightarrow> string option \<times> 'w ostate" where
  "setVariable rem owner repo env v st =
     (let nm = toUpperSnakeCase (var_name v);
          (r, st1) = perform rem (CreateEnvironmentVariable owner repo env nm (var_value v)) st
      in case r of
           Inr _ \<Rightarrow> (None, st1)
         | Inl e \<Rightarrow>
             (if alreadyExists e then
                (let (r2, st2) = perform rem
                       (UpdateEnvironmentVariable owner repo env nm (var_value v)) st1
                 in (failure_of r2, st2))
              else (Some (message e), st1)))"

fun setVariables ::
  "'w remote \<Rightarrow> string \<Rightarrow> string \<Rightarrow> string \<Rightarrow> EnvironmentVariable list \<Rightarrow> 'w ostate
     \<Rightarrow> (nat \<times> EnvironmentVariableResult list) \<times> 'w ostate" where
  "setVariables rem owner repo env [] st = ((0, []), st)"
| "setVariables rem owner repo env (v # vs) st =
     (let (failed, st1) = setVariable rem owner repo env v st;
          ((n, errors), st2) = setVariables rem owner repo env vs st1
      in case failed of
           None \<Rightarrow> ((Suc n, errors), st2)
         | Some m \<Rightarrow>
             ((n, \<lparr>ev_environment = env, ev_variable = toUpperSnakeCase (var_name v),
                   ev_success = False, ev_error = Some m\<rparr> # errors),
              st2))"

fun setEnvironmentVariables ::
  "'w remote \<Rightarrow> string \<Rightarrow> string \<Rightarrow> string list \<Rightarrow> EnvironmentVariables list \<Rightarrow> 'w ostate
     \<Rightarrow> (nat \<times> EnvironmentVariableResult list) \<times> 'w ostate" where
  "setEnvironmentVariables rem owner repo eligible [] st = ((0, []), st)"
| "setEnvironmentVariables rem owner repo eligible (b # bs) st =
     (let ((n1, errors1), st1) =
            (if environmentName b \<in> set eligible
             then setVariables rem owner repo (environmentName b) (variables b) st
             else ((0, []), st));
          ((n2, errors2), st2) = setEnvironmentVariables rem owner repo eligible bs st1
      in ((n1 + n2, errors1 @ errors2), st2))"

text \<open>
  Modelled from the spec: stage 5.  The preset and the target branch go through
  \<open>getBranchProtectionPreset\<close> of the catalog, on the store of the process, and the
  document read back from the returned object is sent in one create-ruleset call.
\<close>

definition createBranchProtection ::
  "'w remote \<Rightarrow> string \<Rightarrow> string \<Rightarrow> BranchProtectionPreset \<Rightarrow> string option \<Rightarrow> 'w ostate
     \<Rightarrow> (bool \<times> string option) \<times> 'w ostate" where
  "createBranchProtection rem owner repo preset target st =
     (case getBranchProtectionPreset preset target (store st) of
        None \<Rightarrow> ((False, Some ''TypeError''), st)
      | Some (config, h') \<Rightarrow>
          (let st1 = st\<lparr>store := h'\<rparr> in
           case read_ruleset h' config of
             None \<Rightarrow> ((False, Some ''TypeError''), st1)
           | Some doc \<Rightarrow>
               (let (r, st2) = perform rem (CreateRepoRuleset owner repo doc) st1 in
                case r of
                  Inl e \<Rightarrow> ((False, Some (message e)), st2)
                | Inr _ \<Rightarrow> ((True, None), st2))))"

text \<open>
  Modelled from the spec: stage 6.  The public key of the repository is fetched once.
  When the fetch fails the stage is abandoned: nothing is created and nothing is
  recorded.  Otherwise each secret, in input order, is sealed against the key with
  \<open>encryptSecret\<close> and uploaded with the key id; a failure of the sealing or of the
  upload is recorded for that secret.
\<close>

fun createSecrets ::
  "'w remote \<Rightarrow> 'w sodium \<Rightarrow> string \<Rightarrow> string \<Rightarrow> string \<Rightarrow> string \<Rightarrow> RepositorySecret list
     \<Rightarrow> 'w ostate \<Rightarrow> (nat \<times> SecretCreationResult list) \<times> 'w ostate" where
  "createSecrets rem so owner repo key_id key [] st = ((0, []), st)"
| "createSecrets rem so owner repo key_id key (s # ss) st =
     (let (sealed, w1) = encryptSecret so key (secret_value s) (world st);
          st1 = st\<lparr>world := w1\<rparr>;
          (failed, st2) =
            (case sealed of
               Inl m \<Rightarrow> (Some m, st1)
             | Inr encrypted \<Rightarrow>
                 (let (r, st') = perform rem
                        (CreateOrUpdateRepoSecret owner repo (secret_name s) encrypted key_id) st1
                  in (failure_of r, st')));
          ((n, errors), st3) = createSecrets rem so owner repo key_id key ss st2
      in case failed of
           None \<Rightarrow> ((Suc n, errors), st3)
         | Some m \<Rightarrow>
             ((n, \<lparr>sc_secret = secret_name s, sc_success = False, sc_error = Some m\<rparr> # errors),
              st3))"

definition manageSecrets ::
  "'w remote \<Rightarrow> 'w sodium \<Rightarrow> string \<Rightarrow> string \<Rightarrow> RepositorySecret list \<Rightarrow> 'w ostate
     \<Rightarrow> (nat \<times> SecretCreationResult list) \<times> 'w ostate" where
  "manageSecrets rem so owner repo ss st =
     (let (r, st1) = perform rem (GetRepoPublicKey owner repo) st in
      case r of
        Inl e \<Rightarrow> ((0, []), st1)
      | Inr (PublicKey key_id key) \<Rightarrow> createSecrets rem so owner repo key_id key ss st1
      | Inr _ \<Rightarrow> ((0, []), st1))"

text \<open>
  Modelled from the spec: \<open>productionalizeRepository(owner, repo, config)\<close>.  The six
  stages run in the fixed order, each only if its part of the configuration is present,
  and the call always returns the result object with every field set.
\<close>

definition productionalizeRepository ::
  "'w remote \<Rightarrow> 'w sodium \<Rightarrow> string \<Rightarrow> string \<Rightarrow> ProductionalizationConfig \<Rightarrow> 'w ostate
     \<Rightarrow> ProductionalizationResult \<times> 'w ostate" where
  "productionalizeRepository rem so owner repo config st0 =
     (let (teams, st1) =
            (case teamPermissions config of
               None \<Rightarrow> ([], st0)
             | Some ts \<Rightarrow> addTeamPermissions rem owner repo ts st0);
          ((tAdded, tError), st2) =
            (case topics config of
               None \<Rightarrow> ((False, None), st1)
             | Some ts \<Rightarrow> addTopics rem owner repo ts st1);
          ((created, envErrors), st3) =
            (case environments config of
               None \<Rightarrow> (([], []), st2)
             | Some envs \<Rightarrow> createEnvironments rem owner repo envs st2);
          eligible =
            (case environments config of
               None \<Rightarrow> []
             | Some envs \<Rightarrow>
                 filter (\<lambda>n. n \<notin> set (map ec_environment envErrors)) (map env_name envs));
          ((vars, varErrors), st4) =
            (case environmentVariables config of
               None \<Rightarrow> ((0, []), st3)
             | Some blocks \<Rightarrow> setEnvironmentVariables rem owner repo eligible blocks st3);
          ((bpCreated, bpError), st5) =
            (case branchProtectionPreset config of
               None \<Rightarrow> ((False, None), st4)
             | Some preset \<Rightarrow>
                 createBranchProtection rem owner repo preset
                   (branchProtectionTargetBranch config) st4);
          ((nsecrets, sErrors), st6) =
            (case secrets config of
               None \<Rightarrow> ((0, []), st5)
             | Some ss \<Rightarrow> manageSecrets rem so owner repo ss st5)
      in (\<lparr>res_teamPermissions = teams, topicsAdded = tAdded, topicsError = tError,
           environmentsCreated = created, environmentErrors = envErrors,
           variablesCreated = vars, variableErrors = varErrors,
           branchProtectionCreated = bpCreated, branchProtectionError = bpError,
           secretsCreated = nsecrets, secretErrors = sErrors\<rparr>,
          st6))"

text \<open>The stage a request belongs to.\<close>

fun stage_of :: "request \<Rightarrow> nat" where
  "stage_of (AddOrUpdateRepoPermissionsInOrg _ _ _ _ _) = 1"
| "stage_of (GetAllTopics _ _) = 2"
| "stage_of (ReplaceAllTopics _ _ _) = 2"
| "stage_of (GetTeamByName _ _) = 3"
| "stage_of (GetUserByUsername _) = 3"
| "stage_of (CreateOrUpdateEnvironment _ _ _ _ _ _) = 3"
| "stage_of (CreateEnvironmentVariable _ _ _ _ _) = 4"
| "stage_of (UpdateEnvironmentVariable _ _ _ _ _) = 4"
| "stage_of (CreateRepoRuleset _ _ _) = 5"
| "stage_of (GetRepoPublicKey _ _) = 6"
| "stage_of (CreateOrUpdateRepoSecret _ _ _ _ _) = 6"

fun is_secret_upload :: "request \<Rightarrow> bool" where
  "is_secret_upload (CreateOrUpdateRepoSecret _ _ _ _ _) = True"
| "is_secret_upload _ = False"

text \<open>The entry of \<open>teamPermissions\<close> that an issued add-or-update call gives rise to.\<close>

fun team_entry :: "request \<times> string option \<Rightarrow> TeamPermissionResult" where
  "team_entry (AddOrUpdateRepoPermissionsInOrg org team owner repo perm, failure) =
     \<lparr>tp_teamSlug = team, tp_success = (failure = None), tp_error = failure\<rparr>"
| "team_entry (_, failure) = \<lparr>tp_teamSlug = [], tp_success = (failure = None), tp_error = failure\<rparr>"


text \<open>
  What a stage adds to the list of issued requests: \<open>issues P st st'\<close> says that the
  requests issued between the two states all satisfy \<open>P\<close>.
\<close>

definition issues :: "(request \<Rightarrow> bool) \<Rightarrow> 'w ostate \<Rightarrow> 'w ostate \<Rightarrow> bool" where
  "issues P st st' \<longleftrightarrow> (\<exists>new. issued st' = issued st @ new \<and> list_all (\<lambda>e. P (fst e)) new)"

definition in_stage :: "nat \<Rightarrow> request \<Rightarrow> bool" where
  "in_stage k req \<longleftrightarrow> stage_of req = k"

text \<open>
  Example runs of the orchestrator, after the unit test of the service: a platform on
  which the second team-permission call fails with \<open>Team not found\<close> and the fetch of
  the public key fails with \<open>Access denied\<close>, and a stand-in for the crypto library
  (it concatenates; no run below reaches it).  The first configuration has the two teams
  of the unit test and a part for every later stage; \<open>example_full_result\<close> and
  \<open>example_full_state\<close> are the result and the final state of its run.
\<close>

definition example_remote :: "nat remote" where
  "example_remote n req =
     (case req of
        AddOrUpdateRepoPermissionsInOrg _ _ _ _ _ \<Rightarrow>
          (if n = 1 then Inl \<lparr>message = ''Team not found'', alreadyExists = False\<rparr> else Inr Ack,
           Suc n)
      | GetAllTopics _ _ \<Rightarrow> (Inr (Names []), n)
      | GetRepoPublicKey _ _ \<Rightarrow> (Inl \<lparr>message = ''Access denied'', alreadyExists = False\<rparr>, n)
      | _ \<Rightarrow> (Inr Ack, n))"

definition example_sodium :: "nat sodium" where
  "example_sodium =
     \<lparr>from_string = map of_char, from_base64 = (\<lambda>s. Inr (map of_char s)),
      crypto_box_seal = (\<lambda>m k w. (Inr (k @ m), w)), to_base64 = map char_of\<rparr>"







definition example_secrets_config :: ProductionalizationConfig where
  "example_secrets_config =
     empty_config\<lparr>secrets := Some [\<lparr>secret_name = ''SECRET'', secret_value = ''value''\<rparr>]\<rparr>"


section \<open>Top-level runner (src/unnamed/part_002)\<close>

text \<open>
  The inputs of the action are a function \<open>inputs\<close> from the name of an input to the
  value the workflow supplies, the empty string for an input that is not supplied.
  \<open>core.getInput\<close> of the actions toolkit reads that value and returns it with the white
  space at both ends removed (\<open>val.trim()\<close>); with \<open>{required: true}\<close> it first throws
  when the value itself, before the trimming, is empty.  The parsers of
  \<open>util/inputParser.ts\<close>, the repository service and the productionalization service are
  parameters of the runner: each returns its value or throws (\<open>Inl\<close>).  What the runner
  does to the outside is the list of its actions: the parsers it calls, the services it
  calls and the outputs it sets; log lines are left out.  \<open>getLogger\<close> and
  \<open>getOctokitClient\<close> only build objects.
\<close>

record RepositoryInput =
  token :: string
  repo_name :: string
  description :: string
  is_private :: bool
  template :: string
  organization :: string
  autoInit :: bool
  gitignoreTemplate :: string
  licenseTemplate :: string
  defaultBranch :: string
  productionalize :: "bool option"
  productionalizationConfig :: "ProductionalizationConfig option"

record RepositoryResult =
  id :: int
  full_name :: string
  html_url :: string

text \<open>
  The value of an output is a text: \<open>ONum n\<close> stands for the decimal text of \<open>n\<close>
  (\<open>result.id.toString()\<close>) and \<open>OJson r\<close> for the JSON text of \<open>r\<close> (\<open>JSON.stringify\<close>).
\<close>

datatype outval = OStr string | ONum int | OJson ProductionalizationResult

datatype action =
    Parse string
  | CreateRepository RepositoryInput
  | ProductionalizeRepository string "string option" ProductionalizationConfig
  | SetOutput string outval
  | SetFailed string

text \<open>
  What a \<open>throw\<close> hands to a \<open>catch\<close>: an \<open>Error\<close> object with its message, or any other
  value (with the text it prints as).  \<open>show_thrown\<close> is the text of \<open>${error}\<close> in a
  template literal, \<open>failed_message\<close> the text that the \<open>catch\<close> of \<open>run\<close> gives to
  \<open>core.setFailed\<close>.
\<close>

datatype thrown = JsError string | NonError string

fun show_thrown :: "thrown \<Rightarrow> string" where
  "show_thrown (JsError m) = ''Error: '' @ m"
| "show_thrown (NonError s) = s"

fun failed_message :: "thrown \<Rightarrow> string" where
  "failed_message (JsError m) = m"
| "failed_message (NonError s) = ''An unknown error occurred''"

record runner_env =
  inputs :: "string \<Rightarrow> string"
  parseTeamPermissions :: "string \<Rightarrow> thrown + TeamPermissionConfig list"
  parseTopics :: "string \<Rightarrow> thrown + string list"
  parseEnvironments :: "string \<Rightarrow> thrown + EnvironmentConfig list"
  parseEnvironmentVariables :: "string \<Rightarrow> thrown + EnvironmentVariables list"
  parseBranchProtectionPreset :: "string \<Rightarrow> thrown + BranchProtectionPreset option"
  parseSecrets :: "string \<Rightarrow> thrown + RepositorySecret list"
  createRepository :: "RepositoryInput \<Rightarrow> thrown + RepositoryResult"
  productionalize_service ::
    "string \<Rightarrow> string option \<Rightarrow> ProductionalizationConfig \<Rightarrow> thrown + ProductionalizationResult"

definition DEFAULT_PRODUCTIONALIZE :: bool where
  "DEFAULT_PRODUCTIONALIZE = False"

definition DEFAULT_BRANCH_PROTECTION_TARGET :: string where
  "DEFAULT_BRANCH_PROTECTION_TARGET = ''master''"

text \<open>
  \<open>String.prototype.trim\<close>.  A string is a sequence of code units below 256; the white
  space and line terminators of the language among them are tab, line feed, vertical
  tab, form feed, carriage return, space and no-break space.
\<close>

definition is_space :: "char \<Rightarrow> bool" where
  "is_space c \<longleftrightarrow> (of_char c :: nat) \<in> {9, 10, 11, 12, 13, 32, 160}"

definition trim :: "string \<Rightarrow> string" where
  "trim s = rev (dropWhile is_space (rev (dropWhile is_space s)))"

text \<open>\<open>core.getInput(nm)\<close> and \<open>core.getInput(nm, {required: true})\<close>.\<close>

definition getInput :: "runner_env \<Rightarrow> string \<Rightarrow> string" where
  "getInput env nm = trim (inputs env nm)"

definition getInput_required :: "runner_env \<Rightarrow> string \<Rightarrow> thrown + string" where
  "getInput_required env nm =
     (if inputs env nm = [] then Inl (JsError (''Input required and not supplied: '' @ nm))
      else Inr (trim (inputs env nm)))"

text \<open>\<open>a || b\<close> on strings: the empty string is falsy.\<close>

definition or_else :: "string \<Rightarrow> string \<Rightarrow> string" where
  "or_else a b = (if a = [] then b else a)"

text \<open>
  \<open>const x = core.getInput(nm); if (x) { config.field = parse(x) }\<close>: the parser is
  called only on a non-empty input, and the call is recorded.
\<close>

definition parse_input ::
  "runner_env \<Rightarrow> string \<Rightarrow> (string \<Rightarrow> thrown + 'a) \<Rightarrow> action list \<Rightarrow> action list \<times> (thrown + 'a option)" where
  "parse_input env nm parser acts =
     (if getInput env nm = [] then (acts, Inr None)
      else (acts @ [Parse nm],
            (case parser (getInput env nm) of Inl e \<Rightarrow> Inl e | Inr v \<Rightarrow> Inr (Some v))))"

text \<open>
  The block guarded by \<open>if (productionalize)\<close>: the six inputs in the order of the source;
  the first parser that throws ends it.  \<open>parseBranchProtectionPreset\<close> may return
  \<open>undefined\<close>, and the target branch is set whenever the preset input is not empty.
\<close>

definition parse_productionalization ::
  "runner_env \<Rightarrow> action list \<times> (thrown + ProductionalizationConfig)" where
  "parse_productionalization env =
     (case parse_input env ''team-permissions'' (parseTeamPermissions env) [] of
        (a1, Inl e) \<Rightarrow> (a1, Inl e)
      | (a1, Inr tp) \<Rightarrow>
     (case parse_input env ''repository-topics'' (parseTopics env) a1 of
        (a2, Inl e) \<Rightarrow> (a2, Inl e)
      | (a2, Inr tops) \<Rightarrow>
     (case parse_input env ''environments'' (parseEnvironments env) a2 of
        (a3, Inl e) \<Rightarrow> (a3, Inl e)
      | (a3, Inr envs) \<Rightarrow>
     (case parse_input env ''environment-variables'' (parseEnvironmentVariables env) a3 of
        (a4, Inl e) \<Rightarrow> (a4, Inl e)
      | (a4, Inr vars) \<Rightarrow>
     (case parse_input env ''branch-protection-preset'' (parseBranchProtectionPreset env) a4 of
        (a5, Inl e) \<Rightarrow> (a5, Inl e)
      | (a5, Inr bp) \<Rightarrow>
     (case parse_input env ''repository-secrets'' (parseSecrets env) a5 of
        (a6, Inl e) \<Rightarrow> (a6, Inl e)
      | (a6, Inr secs) \<Rightarrow>
          (a6, Inr \<lparr>teamPermissions = tp, topics = tops, environments = envs,
                    environmentVariables = vars,
                    branchProtectionPreset = (case bp of None \<Rightarrow> None | Some p \<Rightarrow> p),
                    branchProtectionTargetBranch =
                      (case bp of
                         None \<Rightarrow> None
                       | Some _ \<Rightarrow>
                           Some (or_else (getInput env ''branch-protection-target-branch'')
                                   DEFAULT_BRANCH_PROTECTION_TARGET)),
                    secrets = secs\<rparr>)))))))"

text \<open>
  \<open>getInitializer\<close>: whatever is thrown inside the \<open>try\<close> is rethrown as
  \<open>new Error(`Failed to initialize Foundry: ${error}`)\<close>, so the failure of the
  initializer is the message of that \<open>Error\<close>.
\<close>

definition getInitializer :: "runner_env \<Rightarrow> action list \<times> (string + RepositoryInput)" where
  "getInitializer env =
     (case getInput_required env ''github-token'' of
        Inl e \<Rightarrow> ([], Inl (''Failed to initialize Foundry: '' @ show_thrown e))
      | Inr tok \<Rightarrow>
     (case getInput_required env ''repository-name'' of
        Inl e \<Rightarrow> ([], Inl (''Failed to initialize Foundry: '' @ show_thrown e))
      | Inr nm \<Rightarrow>
          (let input =
                 \<lparr>token = tok, repo_name = nm,
                  description = getInput env ''repository-description'',
                  is_private = (getInput env ''repository-private'' = ''true''),
                  template = getInput env ''repository-template'',
                  organization = getInput env ''organization'',
                  autoInit = (getInput env ''auto-init'' = ''true''),
                  gitignoreTemplate = getInput env ''gitignore-template'',
                  licenseTemplate = getInput env ''license-template'',
                  defaultBranch = or_else (getInput env ''default-branch'') ''main'',
                  productionalize = None, productionalizationConfig = None\<rparr>;
               productionalize_flag =
                 (getInput env ''productionalize'' = ''true'' \<or> DEFAULT_PRODUCTIONALIZE)
           in if productionalize_flag then
                (case parse_productionalization env of
                   (acts, Inl e) \<Rightarrow>
                     (acts, Inl (''Failed to initialize Foundry: '' @ show_thrown e))
                 | (acts, Inr config) \<Rightarrow>
                     (acts, Inr (input\<lparr>productionalize := Some True,
                                       productionalizationConfig := Some config\<rparr>)))
              else ([], Inr input))))"

text \<open>\<open>str.split('/')\<close>.\<close>

fun split_slash :: "string \<Rightarrow> string list" where
  "split_slash [] = [[]]"
| "split_slash (c # cs) =
     (if c = CHR ''/'' then [] # split_slash cs
      else (case split_slash cs of [] \<Rightarrow> [[c]] | p # ps \<Rightarrow> (c # p) # ps))"

text \<open>
  \<open>run\<close>.  The \<open>catch\<close> gives \<open>error.message\<close> to \<open>core.setFailed\<close> when the thrown value is
  an \<open>Error\<close> and the text \<open>An unknown error occurred\<close> otherwise; a failed initializer
  always throws an \<open>Error\<close>.
\<close>

definition run :: "runner_env \<Rightarrow> action list" where
  "run env =
     (case getInitializer env of
        (acts, Inl m) \<Rightarrow> acts @ [SetFailed m]
      | (acts, Inr input) \<Rightarrow>
          (case createRepository env input of
             Inl e \<Rightarrow> acts @ [CreateRepository input, SetFailed (failed_message e)]
           | Inr result \<Rightarrow>
               acts @
               [CreateRepository input,
                SetOutput ''repository-url'' (OStr (html_url result)),
                SetOutput ''repository-name'' (OStr (full_name result)),
                SetOutput ''repository-id'' (ONum (id result))] @
               (case (productionalize input, productionalizationConfig input) of
                  (Some True, Some config) \<Rightarrow>
                    (let parts = split_slash (full_name result);
                         owner = (case parts of [] \<Rightarrow> [] | p # _ \<Rightarrow> p);
                         repo = (case parts of _ # r # _ \<Rightarrow> Some r | _ \<Rightarrow> None)
                     in ProductionalizeRepository owner repo config #
                        (case productionalize_service env owner repo config of
                           Inl e \<Rightarrow> [SetFailed (failed_message e)]
                         | Inr prodResult \<Rightarrow>
                             [SetOutput ''productionalization-status'' (OJson prodResult)]))
                | _ \<Rightarrow> [])))"

text \<open>The actions of the productionalization pass, and the calls of a parser among them.\<close>

fun productionalization_action :: "action \<Rightarrow> bool" where
  "productionalization_action (Parse _) = True"
| "productionalization_action (ProductionalizeRepository _ _ _) = True"
| "productionalization_action (SetOutput nm _) = (nm = ''productionalization-status'')"
| "productionalization_action _ = False"

fun is_parse :: "action \<Rightarrow> bool" where
  "is_parse (Parse _) = True"
| "is_parse _ = False"

text \<open>
  Example runs, used to instantiate the properties below: a preset parser that accepts
  the three preset names, the other parsers and the two services succeeding; and the
  same with a repository service that fails.
\<close>

definition example_parsePreset :: "string \<Rightarrow> thrown + BranchProtectionPreset option" where
  "example_parsePreset s =
     (if s = [] then Inr None
      else if s = ''strict'' then Inr (Some strict)
      else if s = ''moderate'' then Inr (Some moderate)
      else if s = ''minimal'' then Inr (Some minimal)
      else Inl (JsError (''Invalid branch protection preset: '' @ s)))"

definition example_result :: ProductionalizationResult where
  "example_result =
     \<lparr>res_teamPermissions = [], topicsAdded = False, topicsError = None,
      environmentsCreated = [], environmentErrors = [], variablesCreated = 0,
      variableErrors = [], branchProtectionCreated = True, branchProtectionError = None,
      secretsCreated = 0, secretErrors = []\<rparr>"

definition example_env :: "string \<Rightarrow> string \<Rightarrow> runner_env" where
  "example_env flag preset =
     \<lparr>inputs = (\<lambda>nm. if nm = ''github-token'' then ''ghp_token''
                      else if nm = ''repository-name'' then ''demo''
                      else if nm = ''productionalize'' then flag
                      else if nm = ''branch-protection-preset'' then preset
                      else []),
      parseTeamPermissions = (\<lambda>s. Inr []),
      parseTopics = (\<lambda>s. Inr []),
      parseEnvironments = (\<lambda>s. Inr []),
      parseEnvironmentVariables = (\<lambda>s. Inr []),
      parseBranchProtectionPreset = example_parsePreset,
      parseSecrets = (\<lambda>s. Inr []),
      createRepository =
        (\<lambda>input. Inr \<lparr>id = 1, full_name = ''acme/'' @ repo_name input, html_url = ''https://example.test''\<rparr>),
      productionalize_service = (\<lambda>owner repo config. Inr example_result)\<rparr>"

definition example_env_no_repository :: runner_env where
  "example_env_no_repository =
     (example_env ''true'' ''strict'')
       \<lparr>createRepository := (\<lambda>input. Inl (JsError ''Failed to create repository''))\<rparr>"

definition example_preset_config :: ProductionalizationConfig where
  "example_preset_config =
     \<lparr>teamPermissions = None, topics = None, environments = None,
      environmentVariables = None, branchProtectionPreset = Some strict,
      branchProtectionTargetBranch = Some ''master'', secrets = None\<rparr>"

definition example_input :: RepositoryInput where
  "example_input =
     \<lparr>token = ''ghp_token'', repo_name = ''demo'', description = [], is_private = False,
      template = [], organization = [], autoInit = False, gitignoreTemplate = [],
      licenseTemplate = [], defaultBranch = ''main'', productionalize = Some True,
      productionalizationConfig = Some example_preset_config\<rparr>"


section \<open>Properties of the preset catalog\<close>


lemma catalog_heap_eq:
  "catalog_heap v1 v2 v3 =
   [JArray [], JArray [],
    JObject [(''include'', v1), (''exclude'', JRef 1)],
    JObject [(''ref_name'', JRef 2)],
    JObject
     [(''dismiss_stale_reviews_on_push'', JBool True),
      (''require_code_owner_review'', JBool False),
      (''require_last_push_approval'', JBool True),
      (''required_approving_review_count'', JNum 2),
      (''required_review_thread_resolution'', JBool True)],
    JObject [(''type'', JStr ''pull_request''), (''parameters'', JRef 4)],
    JObject [(''type'', JStr ''non_fast_forward'')],
    JArray [JRef 5, JRef 6],
    JObject
     [(''name'', JStr ''Branch protection rules (strict)''),
      (''target'', JStr ''branch''), (''enforcement'', JStr ''active''),
      (''conditions'', JRef 3), (''rules'', JRef 7)],
    JArray [], JArray [],
    JObject [(''include'', v2), (''exclude'', JRef 10)],
    JObject [(''ref_name'', JRef 11)],
    JObject
     [(''dismiss_stale_reviews_on_push'', JBool True),
      (''require_code_owner_review'', JBool False),
      (''require_last_push_approval'', JBool True),
      (''required_approving_review_count'', JNum 1),
      (''required_review_thread_resolution'', JBool True)],
    JObject [(''type'', JStr ''pull_request''), (''parameters'', JRef 13)],
    JObject [(''type'', JStr ''non_fast_forward'')],
    JArray [JRef 14, JRef 15],
    JObject
     [(''name'', JStr ''Branch protection rules (moderate)''),
      (''target'', JStr ''branch''), (''enforcement'', JStr ''active''),
      (''conditions'', JRef 12), (''rules'', JRef 16)],
    JArray [], JArray [],
    JObject [(''include'', v3), (''exclude'', JRef 19)],
    JObject [(''ref_name'', JRef 20)],
    JObject
     [(''dismiss_stale_reviews_on_push'', JBool False),
      (''require_code_owner_review'', JBool False),
      (''require_last_push_approval'', JBool False),
      (''required_approving_review_count'', JNum 1),
      (''required_review_thread_resolution'', JBool False)],
    JObject [(''type'', JStr ''pull_request''), (''parameters'', JRef 22)],
    JObject [(''type'', JStr ''non_fast_forward'')],
    JArray [JRef 23, JRef 24],
    JObject
     [(''name'', JStr ''Branch protection rules (minimal)''),
      (''target'', JStr ''branch''), (''enforcement'', JStr ''active''),
      (''conditions'', JRef 21), (''rules'', JRef 25)],
    JObject
     [(''strict'', JRef 8), (''moderate'', JRef 17), (''minimal'', JRef 26)]]"
  by (simp add: catalog_heap_def module_heap_def module_init_def preset_literal_def alloc_def)

lemma length_catalog_heap: "length (catalog_heap v1 v2 v3) = 28"
  by (simp add: catalog_heap_eq)

lemma module_heap_catalog: "module_heap = catalog_heap (JRef 0) (JRef 9) (JRef 18)"
  by (simp add: catalog_heap_def module_heap_def module_init_def preset_literal_def alloc_def)

lemma presets_addr: "BRANCH_PROTECTION_PRESETS = JRef 27"
  by (simp add: BRANCH_PROTECTION_PRESETS_def module_init_def preset_literal_def alloc_def)

lemma nth_catalog_heap:
  "catalog_heap v1 v2 v3 ! 0 = JArray []"
  "catalog_heap v1 v2 v3 ! Suc 0 = JArray []"
  "catalog_heap v1 v2 v3 ! 2 = JObject [(''include'', v1), (''exclude'', JRef 1)]"
  "catalog_heap v1 v2 v3 ! 3 = JObject [(''ref_name'', JRef 2)]"
  "catalog_heap v1 v2 v3 ! 4 = JObject
     [(''dismiss_stale_reviews_on_push'', JBool True),
      (''require_code_owner_review'', JBool False),
      (''require_last_push_approval'', JBool True),
      (''required_approving_review_count'', JNum 2),
      (''required_review_thread_resolution'', JBool True)]"
  "catalog_heap v1 v2 v3 ! 5 = JObject [(''type'', JStr ''pull_request''), (''parameters'', JRef 4)]"
  "catalog_heap v1 v2 v3 ! 6 = JObject [(''type'', JStr ''non_fast_forward'')]"
  "catalog_heap v1 v2 v3 ! 7 = JArray [JRef 5, JRef 6]"
  "catalog_heap v1 v2 v3 ! 8 = JObject
     [(''name'', JStr ''Branch protection rules (strict)''),
      (''target'', JStr ''branch''), (''enforcement'', JStr ''active''),
      (''conditions'', JRef 3), (''rules'', JRef 7)]"
  "catalog_heap v1 v2 v3 ! 9 = JArray []"
  "catalog_heap v1 v2 v3 ! 10 = JArray []"
  "catalog_heap v1 v2 v3 ! 11 = JObject [(''include'', v2), (''exclude'', JRef 10)]"
  "catalog_heap v1 v2 v3 ! 12 = JObject [(''ref_name'', JRef 11)]"
  "catalog_heap v1 v2 v3 ! 13 = JObject
     [(''dismiss_stale_reviews_on_push'', JBool True),
      (''require_code_owner_review'', JBool False),
      (''require_last_push_approval'', JBool True),
      (''required_approving_review_count'', JNum 1),
      (''required_review_thread_resolution'', JBool True)]"
  "catalog_heap v1 v2 v3 ! 14 = JObject [(''type'', JStr ''pull_request''), (''parameters'', JRef 13)]"
  "catalog_heap v1 v2 v3 ! 15 = JObject [(''type'', JStr ''non_fast_forward'')]"
  "catalog_heap v1 v2 v3 ! 16 = JArray [JRef 14, JRef 15]"
  "catalog_heap v1 v2 v3 ! 17 = JObject
     [(''name'', JStr ''Branch protection rules (moderate)''),
      (''target'', JStr ''branch''), (''enforcement'', JStr ''active''),
      (''conditions'', JRef 12), (''rules'', JRef 16)]"
  "catalog_heap v1 v2 v3 ! 18 = JArray []"
  "catalog_heap v1 v2 v3 ! 19 = JArray []"
  "catalog_heap v1 v2 v3 ! 20 = JObject [(''include'', v3), (''exclude'', JRef 19)]"
  "catalog_heap v1 v2 v3 ! 21 = JObject [(''ref_name'', JRef 20)]"
  "catalog_heap v1 v2 v3 ! 22 = JObject
     [(''dismiss_stale_reviews_on_push'', JBool False),
      (''require_code_owner_review'', JBool False),
      (''require_last_push_approval'', JBool False),
      (''required_approving_review_count'', JNum 1),
      (''required_review_thread_resolution'', JBool False)]"
  "catalog_heap v1 v2 v3 ! 23 = JObject [(''type'', JStr ''pull_request''), (''parameters'', JRef 22)]"
  "catalog_heap v1 v2 v3 ! 24 = JObject [(''type'', JStr ''non_fast_forward'')]"
  "catalog_heap v1 v2 v3 ! 25 = JArray [JRef 23, JRef 24]"
  "catalog_heap v1 v2 v3 ! 26 = JObject
     [(''name'', JStr ''Branch protection rules (minimal)''),
      (''target'', JStr ''branch''), (''enforcement'', JStr ''active''),
      (''conditions'', JRef 21), (''rules'', JRef 25)]"
  "catalog_heap v1 v2 v3 ! 27 = JObject [(''strict'', JRef 8), (''moderate'', JRef 17), (''minimal'', JRef 26)]"
  by (simp_all add: catalog_heap_eq)

lemma update_catalog_heap:
  "(catalog_heap v1 v2 v3)[2 := JObject [(''include'', v), (''exclude'', JRef (Suc 0))]] = catalog_heap v v2 v3"
  "(catalog_heap v1 v2 v3)[11 := JObject [(''include'', v), (''exclude'', JRef 10)]] = catalog_heap v1 v v3"
  "(catalog_heap v1 v2 v3)[20 := JObject [(''include'', v), (''exclude'', JRef 19)]] = catalog_heap v1 v2 v"
  by (simp_all add: catalog_heap_eq)

lemmas heap_ops = get_prop_def set_prop_def deref_def alloc_def

lemma getBranchProtectionPreset_catalog:
  "getBranchProtectionPreset p b (catalog_heap v1 v2 v3 @ ext) =
     Some (JRef (28 + length ext),
           after_call p (''refs/heads/'' @ target_of b) v1 v2 v3 ext)"
  by (cases p)
     (simp_all add: getBranchProtectionPreset_def heap_ops presets_addr nth_append
        length_catalog_heap nth_catalog_heap target_of_def list_update_append
        update_catalog_heap after_call_def)

lemma read_after_call:
  "read_ruleset (after_call p s v1 v2 v3 ext) (JRef (28 + length ext)) =
     Some \<lparr>rs_name = ''Branch protection rules ('' @ preset_key p @ '')'',
           rs_target = ''branch'', rs_enforcement = ''active'',
           rs_include = [s], rs_exclude = [],
           rs_rules =
             [\<lparr>rule_type = ''pull_request'',
               parameters = Some
                 [(''dismiss_stale_reviews_on_push'', JBool (p \<noteq> minimal)),
                  (''require_code_owner_review'', JBool False),
                  (''require_last_push_approval'', JBool (p \<noteq> minimal)),
                  (''required_approving_review_count'', JNum (if p = strict then 2 else 1)),
                  (''required_review_thread_resolution'', JBool (p \<noteq> minimal))]\<rparr>,
              \<lparr>rule_type = ''non_fast_forward'', parameters = None\<rparr>]\<rparr>"
  by (cases p)
     (simp_all add: after_call_def read_ruleset_def read_rule_def read_strings_def heap_ops
        nth_append length_catalog_heap nth_catalog_heap)

lemma after_call_shape:
  "\<exists>v1' v2' v3' ext'. after_call p s v1 v2 v3 ext = catalog_heap v1' v2' v3' @ ext'"
  by (cases p) (auto simp: after_call_def)

lemma calls_catalog:
  "\<exists>v1' v2' v3' ext'. calls cs (catalog_heap v1 v2 v3 @ ext) = Some (catalog_heap v1' v2' v3' @ ext')"
proof (induction cs arbitrary: v1 v2 v3 ext)
  case Nil
  show ?case by auto
next
  case (Cons c cs)
  obtain p b where c: "c = (p, b)" by (cases c)
  obtain w1 w2 w3 e where
    "after_call p (''refs/heads/'' @ target_of b) v1 v2 v3 ext = catalog_heap w1 w2 w3 @ e"
    using after_call_shape by blast
  then show ?case
    using Cons.IH [of w1 w2 w3 e] by (simp add: c getBranchProtectionPreset_catalog)
qed

text \<open>
  Claim C5.  After any sequence of earlier calls, the ruleset returned by
  \<open>getBranchProtectionPreset(p, b)\<close> has exactly one entry in
  \<open>conditions.ref_name.include\<close>, \<open>refs/heads/\<close> followed by \<open>b\<close>; its pull-request rule
  requires 2 approving reviews for \<open>strict\<close> and 1 for \<open>moderate\<close> and \<open>minimal\<close>; stale-review
  dismissal, last-push approval and thread resolution are on for \<open>strict\<close> and \<open>moderate\<close>
  and off for \<open>minimal\<close>; and every preset has a \<open>non_fast_forward\<close> rule.
\<close>

theorem preset_contents:
  "\<exists>h config h' doc.
     calls cs module_heap = Some h \<and>
     getBranchProtectionPreset p (Some b) h = Some (config, h') \<and>
     read_ruleset h' config = Some doc \<and>
     rs_include doc = [''refs/heads/'' @ b] \<and>
     rule_param doc ''pull_request'' ''required_approving_review_count'' =
       Some (JNum (case p of strict \<Rightarrow> 2 | moderate \<Rightarrow> 1 | minimal \<Rightarrow> 1)) \<and>
     rule_param doc ''pull_request'' ''dismiss_stale_reviews_on_push'' =
       Some (JBool (case p of strict \<Rightarrow> True | moderate \<Rightarrow> True | minimal \<Rightarrow> False)) \<and>
     rule_param doc ''pull_request'' ''require_last_push_approval'' =
       Some (JBool (case p of strict \<Rightarrow> True | moderate \<Rightarrow> True | minimal \<Rightarrow> False)) \<and>
     rule_param doc ''pull_request'' ''required_review_thread_resolution'' =
       Some (JBool (case p of strict \<Rightarrow> True | moderate \<Rightarrow> True | minimal \<Rightarrow> False)) \<and>
     ''non_fast_forward'' \<in> set (map rule_type (rs_rules doc))"
proof -
  obtain v1 v2 v3 ext where h: "calls cs module_heap = Some (catalog_heap v1 v2 v3 @ ext)"
    using calls_catalog [of cs "JRef 0" "JRef 9" "JRef 18" "[]"]
    by (auto simp: module_heap_catalog)
  let ?h' = "after_call p (''refs/heads/'' @ b) v1 v2 v3 ext"
  have g: "getBranchProtectionPreset p (Some b) (catalog_heap v1 v2 v3 @ ext) =
             Some (JRef (28 + length ext), ?h')"
    by (simp add: getBranchProtectionPreset_catalog target_of_def)
  show ?thesis
    apply (rule exI [of _ "catalog_heap v1 v2 v3 @ ext"])
    apply (rule exI [of _ "JRef (28 + length ext)"])
    apply (rule exI [of _ ?h'])
    apply (simp only: h g read_after_call)
    apply (cases p)
      apply (simp_all add: rule_param_def)
    done
qed

text \<open>
  Claim C4.  The copy is shallow.  In a freshly loaded module the template of \<open>strict\<close>
  has an empty \<open>include\<close>; after \<open>getBranchProtectionPreset('strict', 'main')\<close> the template
  in the catalog reads \<open>refs/heads/main\<close>, and after a second call with \<open>'develop'\<close> the
  ruleset that the first call returned reads \<open>refs/heads/develop\<close>.
\<close>

theorem spread_copy_shares_conditions:
  "\<exists>c1 h1 c2 h2.
     getBranchProtectionPreset strict (Some ''main'') module_heap = Some (c1, h1) \<and>
     getBranchProtectionPreset strict (Some ''develop'') h1 = Some (c2, h2) \<and>
     map_option rs_include (catalog_entry module_heap strict) = Some [] \<and>
     map_option rs_include (catalog_entry h1 strict) = Some [''refs/heads/main''] \<and>
     map_option rs_include (read_ruleset h1 c1) = Some [''refs/heads/main''] \<and>
     map_option rs_include (read_ruleset h2 c1) = Some [''refs/heads/develop'']"
proof -
  let ?h1 = "after_call strict ''refs/heads/main'' (JRef 0) (JRef 9) (JRef 18) []"
  let ?h2 = "after_call strict ''refs/heads/develop'' (JRef 29) (JRef 9) (JRef 18)
               [catalog_heap (JRef 0) (JRef 9) (JRef 18) ! 8, JArray [JStr ''refs/heads/main'']]"
  have h1: "?h1 = catalog_heap (JRef 29) (JRef 9) (JRef 18) @
               [catalog_heap (JRef 0) (JRef 9) (JRef 18) ! 8, JArray [JStr ''refs/heads/main'']]"
    by (simp add: after_call_def)
  have g1: "getBranchProtectionPreset strict (Some ''main'') module_heap = Some (JRef 28, ?h1)"
    using getBranchProtectionPreset_catalog [of strict "Some ''main''" "JRef 0" "JRef 9" "JRef 18" "[]"]
    by (simp add: module_heap_catalog target_of_def)
  have g2: "getBranchProtectionPreset strict (Some ''develop'') ?h1 = Some (JRef 30, ?h2)"
    unfolding h1
    using getBranchProtectionPreset_catalog [of strict "Some ''develop''" "JRef 29" "JRef 9" "JRef 18"
        "[catalog_heap (JRef 0) (JRef 9) (JRef 18) ! 8, JArray [JStr ''refs/heads/main'']]"]
    by (simp add: target_of_def)
  have e0: "map_option rs_include (catalog_entry module_heap strict) = Some []"
    unfolding module_heap_catalog
    by (simp add: catalog_entry_def read_ruleset_def read_rule_def read_strings_def heap_ops
        presets_addr nth_append length_catalog_heap nth_catalog_heap)
  have e1: "map_option rs_include (catalog_entry ?h1 strict) = Some [''refs/heads/main'']"
    by (simp add: after_call_def catalog_entry_def read_ruleset_def read_rule_def read_strings_def
        heap_ops presets_addr nth_append length_catalog_heap nth_catalog_heap)
  have r1: "map_option rs_include (read_ruleset ?h1 (JRef 28)) = Some [''refs/heads/main'']"
    using read_after_call [of strict "''refs/heads/main''" "JRef 0" "JRef 9" "JRef 18" "[]"]
    by simp
  have r2: "map_option rs_include (read_ruleset ?h2 (JRef 28)) = Some [''refs/heads/develop'']"
    by (simp add: after_call_def read_ruleset_def read_rule_def read_strings_def
        heap_ops nth_append length_catalog_heap nth_catalog_heap)
  show ?thesis
    using g1 g2 e0 e1 r1 r2 by blast
qed


section \<open>Properties of the case normalizer\<close>

lemmas case_defs = toUpperSnakeCase_def boundary_def is_upper_def is_lower_def is_digit_def to_upper_def separator_def








lemma classes_disjoint: "is_digit c \<Longrightarrow> \<not> is_upper c \<and> \<not> is_lower c" "is_upper c \<Longrightarrow> \<not> is_lower c"
  by (auto simp: is_upper_def is_lower_def is_digit_def)














text \<open>The model gives the expected output on every input of the unit test.\<close>

lemma toUpperSnakeCase_passes_tests:
  "list_all (\<lambda>(i, e). toUpperSnakeCase i = e) caseConverter_tests"
  by (simp add: caseConverter_tests_def case_defs char_of_eq_iff)

text \<open>
  Claim C6, as the unit test of the repository fixes it.  The unit test expects \<open>VALUE123_NAME\<close> for the input
  \<open>value123Name\<close>, and that is the output: the letter \<open>e\<close> is directly followed by the
  digit \<open>1\<close>, with no separator between them, and the only separator is the one between
  \<open>3\<close> and \<open>N\<close>.  So the normalizer does not insert a separator at every letter-to-digit
  transition.
\<close>

theorem value123Name_output:
  "(''value123Name'', ''VALUE123_NAME'') \<in> set caseConverter_tests \<and>
   toUpperSnakeCase ''value123Name'' = ''VALUE123_NAME''"
  by (simp add: caseConverter_tests_def case_defs char_of_eq_iff)

text \<open>
  Counterexample for C6 as the specification states it: the output for \<open>value123Name\<close> is
  not \<open>VALUE_123_NAME\<close>.
\<close>

theorem letter_digit_separator_counterexample:
  "toUpperSnakeCase ''value123Name'' \<noteq> ''VALUE_123_NAME''"
  by (simp add: case_defs char_of_eq_iff)




section \<open>Properties of the orchestrator\<close>

lemma issues_refl: "issues P st st"
  by (simp add: issues_def)

lemma issues_trans: "issues P a b \<Longrightarrow> issues P b c \<Longrightarrow> issues P a c"
  by (auto simp: issues_def)

lemma issues_mono: "issues P a b \<Longrightarrow> (\<And>r. P r \<Longrightarrow> Q r) \<Longrightarrow> issues Q a b"
  by (auto simp: issues_def list_all_iff)

lemma issues_world: "issues P st (st\<lparr>world := w\<rparr>)"
  by (simp add: issues_def)

lemma issues_store: "issues P st (st\<lparr>store := h\<rparr>)"
  by (simp add: issues_def)

lemma perform_issued:
  "perform rem req st = (r, st') \<Longrightarrow> issued st' = issued st @ [(req, failure_of r)]"
  by (auto simp: perform_def split: prod.splits)

lemma issues_perform: "perform rem req st = (r, st') \<Longrightarrow> P req \<Longrightarrow> issues P st st'"
  by (auto simp: issues_def dest: perform_issued)


text \<open>Stage 1: one request per team, in order, and one entry per request.\<close>

lemma addTeamPermissions_issued:
  "addTeamPermissions rem owner repo ts st = (entries, st') \<Longrightarrow>
   \<exists>new. issued st' = issued st @ new \<and>
     map fst new =
       map (\<lambda>t. AddOrUpdateRepoPermissionsInOrg owner (teamSlug t) owner repo (permission t)) ts \<and>
     entries = map team_entry new"
proof (induction ts arbitrary: st entries st')
  case Nil
  then show ?case by simp
next
  case (Cons t ts)
  obtain r st1 where p: "perform rem
      (AddOrUpdateRepoPermissionsInOrg owner (teamSlug t) owner repo (permission t)) st = (r, st1)"
    by (cases "perform rem
      (AddOrUpdateRepoPermissionsInOrg owner (teamSlug t) owner repo (permission t)) st")
  obtain es st2 where a: "addTeamPermissions rem owner repo ts st1 = (es, st2)"
    by (cases "addTeamPermissions rem owner repo ts st1")
  from Cons.IH [OF a] obtain new where new: "issued st2 = issued st1 @ new"
    "map fst new = map (\<lambda>t. AddOrUpdateRepoPermissionsInOrg owner (teamSlug t) owner repo (permission t)) ts"
    "es = map team_entry new"
    by blast
  have e: "entries = team_entry (AddOrUpdateRepoPermissionsInOrg owner (teamSlug t) owner repo (permission t), failure_of r) # es"
    and s: "st' = st2"
    using Cons.prems p a by (auto simp: failure_of_def split: sum.splits)
  show ?case
    apply (rule exI [of _ "(AddOrUpdateRepoPermissionsInOrg owner (teamSlug t) owner repo (permission t), failure_of r) # new"])
    using new e s perform_issued [OF p] by simp
qed

lemma addTeamPermissions_issues:
  "addTeamPermissions rem owner repo ts st = (entries, st') \<Longrightarrow> issues (in_stage 1) st st'"
proof -
  assume "addTeamPermissions rem owner repo ts st = (entries, st')"
  from addTeamPermissions_issued [OF this] obtain new where n: "issued st' = issued st @ new"
    "map fst new =
       map (\<lambda>t. AddOrUpdateRepoPermissionsInOrg owner (teamSlug t) owner repo (permission t)) ts"
    by blast
  have "\<forall>q\<in>set (map fst new). in_stage 1 q"
    unfolding n(2) by (simp add: in_stage_def)
  then show ?thesis
    using n(1) by (auto simp: issues_def list_all_iff)
qed

text \<open>Stage 2.\<close>

lemma addTopics_issues:
  "addTopics rem owner repo ts st = (r, st') \<Longrightarrow> issues (in_stage 2) st st'"
  by (auto simp: addTopics_def in_stage_def issues_def
      split: prod.splits sum.splits response.splits dest!: perform_issued)

lemma addTopics_first:
  "addTopics rem owner repo ts st = (r, st') \<Longrightarrow>
   \<exists>out. (GetAllTopics owner repo, out) \<in> set (issued st')"
  by (auto simp: addTopics_def split: prod.splits sum.splits response.splits
      dest!: perform_issued)

text \<open>Stage 3.\<close>

lemma resolveReviewers_issues:
  "resolveReviewers rem owner rvs st = (r, st') \<Longrightarrow> issues (in_stage 3) st st'"
proof (induction rvs arbitrary: st r st')
  case Nil
  then show ?case by (simp add: issues_refl)
next
  case (Cons rv rvs)
  let ?req = "case reviewer_type rv of Team \<Rightarrow> GetTeamByName owner (slug rv)
               | User \<Rightarrow> GetUserByUsername (slug rv)"
  obtain r1 st1 where p: "perform rem ?req st = (r1, st1)"
    by (cases "perform rem ?req st")
  have i1: "issues (in_stage 3) st st1"
    using p by (rule issues_perform) (simp add: in_stage_def split: ReviewerType.splits)
  obtain r2 st2 where q: "resolveReviewers rem owner rvs st1 = (r2, st2)"
    by (cases "resolveReviewers rem owner rvs st1")
  have i2: "issues (in_stage 3) st1 st2"
    using Cons.IH [OF q] .
  have "st' = st1 \<or> st' = st2"
    using Cons.prems p q by (auto split: sum.splits response.splits)
  then show ?case
    using i1 i2 issues_trans by blast
qed

lemma createEnvironment_issues:
  "createEnvironment rem owner repo env st = (r, st') \<Longrightarrow> issues (in_stage 3) st st'"
  by (auto simp: createEnvironment_def in_stage_def issues_def
      split: prod.splits sum.splits option.splits
      dest!: perform_issued resolveReviewers_issues [unfolded issues_def])

lemma createEnvironments_issues:
  "createEnvironments rem owner repo envs st = (r, st') \<Longrightarrow> issues (in_stage 3) st st'"
proof (induction envs arbitrary: st r st')
  case Nil
  then show ?case by (simp add: issues_refl)
next
  case (Cons env envs)
  then show ?case
    by (auto split: prod.splits option.splits
        intro: issues_trans dest: createEnvironment_issues)
qed

text \<open>Stage 4.\<close>

lemma setVariable_issues:
  "setVariable rem owner repo env v st = (r, st') \<Longrightarrow> issues (in_stage 4) st st'"
  by (auto simp: setVariable_def Let_def in_stage_def issues_def
      split: prod.splits sum.splits if_splits dest!: perform_issued)

lemma setVariables_issues:
  "setVariables rem owner repo env vs st = (r, st') \<Longrightarrow> issues (in_stage 4) st st'"
proof (induction vs arbitrary: st r st')
  case Nil
  then show ?case by (simp add: issues_refl)
next
  case (Cons v vs)
  then show ?case
    by (auto split: prod.splits option.splits
        intro: issues_trans dest: setVariable_issues)
qed

lemma setEnvironmentVariables_issues:
  "setEnvironmentVariables rem owner repo eligible bs st = (r, st') \<Longrightarrow> issues (in_stage 4) st st'"
proof (induction bs arbitrary: st r st')
  case Nil
  then show ?case by (simp add: issues_refl)
next
  case (Cons b bs)
  then show ?case
    by (auto split: prod.splits if_splits
        intro: issues_trans issues_refl dest: setVariables_issues)
qed

text \<open>Stage 5.\<close>

lemma createBranchProtection_issues:
  "createBranchProtection rem owner repo p target st = (r, st') \<Longrightarrow> issues (in_stage 5) st st'"
  by (auto simp: createBranchProtection_def Let_def in_stage_def issues_def
      split: prod.splits sum.splits option.splits dest!: perform_issued)

text \<open>Stage 6.\<close>

lemma createSecrets_issues:
  "createSecrets rem so owner repo key_id key ss st = (r, st') \<Longrightarrow> issues is_secret_upload st st'"
proof (induction ss arbitrary: st r st')
  case Nil
  then show ?case by (simp add: issues_refl)
next
  case (Cons s ss)
  obtain sealed w1 where e: "encryptSecret so key (secret_value s) (world st) = (sealed, w1)"
    by (cases "encryptSecret so key (secret_value s) (world st)")
  let ?upload = "case sealed of
                   Inl m \<Rightarrow> (Some m, st\<lparr>world := w1\<rparr>)
                 | Inr encrypted \<Rightarrow>
                     (let (r, st') = perform rem
                            (CreateOrUpdateRepoSecret owner repo (secret_name s) encrypted key_id)
                            (st\<lparr>world := w1\<rparr>)
                      in (failure_of r, st'))"
  obtain failed st2 where f: "?upload = (failed, st2)"
    by (cases "?upload")
  have i12: "issues is_secret_upload st st2"
    using f by (cases sealed) (auto simp: issues_def split: prod.splits dest!: perform_issued)
  obtain r3 st3 where c: "createSecrets rem so owner repo key_id key ss st2 = (r3, st3)"
    by (cases "createSecrets rem so owner repo key_id key ss st2")
  have "st' = st3"
    using Cons.prems e f c by (auto simp: Let_def split: prod.splits option.splits)
  then show ?case
    using i12 Cons.IH [OF c] issues_trans by blast
qed

lemma manageSecrets_cases:
  assumes "manageSecrets rem so owner repo ss st = (r, st')"
  obtains r1 st1 where
    "perform rem (GetRepoPublicKey owner repo) st = (r1, st1)"
    "(\<exists>e. r1 = Inl e) \<and> st' = st1 \<and> r = (0, []) \<or>
     (\<exists>payload. r1 = Inr payload) \<and>
       (st' = st1 \<or> (\<exists>key_id key. createSecrets rem so owner repo key_id key ss st1 = (r, st')))"
proof -
  obtain r1 st1 where p: "perform rem (GetRepoPublicKey owner repo) st = (r1, st1)"
    by (cases "perform rem (GetRepoPublicKey owner repo) st")
  show ?thesis
  proof (cases r1)
    case (Inl e)
    then have "st' = st1 \<and> r = (0, [])"
      using assms p by (simp add: manageSecrets_def)
    then show ?thesis using that [OF p] Inl by simp
  next
    case (Inr payload)
    then have "st' = st1 \<or> (\<exists>key_id key. createSecrets rem so owner repo key_id key ss st1 = (r, st'))"
      using assms p by (cases payload) (auto simp: manageSecrets_def)
    then show ?thesis using that [OF p] Inr by simp
  qed
qed

text \<open>
  When the fetch of the public key fails nothing is uploaded; when it succeeds no failed
  fetch is recorded.
\<close>

lemma manageSecrets_key:
  assumes "manageSecrets rem so owner repo ss st = (r, st')"
  shows "\<exists>out new. issued st' = issued st @ (GetRepoPublicKey owner repo, out) # new \<and>
            list_all (\<lambda>e. is_secret_upload (fst e)) new \<and>
            (out \<noteq> None \<longrightarrow> r = (0, []) \<and> new = [])"
proof -
  from assms obtain r1 st1 where p: "perform rem (GetRepoPublicKey owner repo) st = (r1, st1)"
    and c: "(\<exists>e. r1 = Inl e) \<and> st' = st1 \<and> r = (0, []) \<or>
     (\<exists>payload. r1 = Inr payload) \<and>
       (st' = st1 \<or> (\<exists>key_id key. createSecrets rem so owner repo key_id key ss st1 = (r, st')))"
    by (rule manageSecrets_cases)
  have i1: "issued st1 = issued st @ [(GetRepoPublicKey owner repo, failure_of r1)]"
    using p by (rule perform_issued)
  from c show ?thesis
  proof
    assume "(\<exists>e. r1 = Inl e) \<and> st' = st1 \<and> r = (0, [])"
    then show ?thesis using i1 by simp
  next
    assume a: "(\<exists>payload. r1 = Inr payload) \<and>
       (st' = st1 \<or> (\<exists>key_id key. createSecrets rem so owner repo key_id key ss st1 = (r, st')))"
    then have none: "failure_of r1 = None" by (auto simp: failure_of_def)
    have "issues is_secret_upload st1 st'"
    proof (cases "st' = st1")
      case True
      then show ?thesis by (simp add: issues_refl)
    next
      case False
      then obtain key_id key where "createSecrets rem so owner repo key_id key ss st1 = (r, st')"
        using a by blast
      then show ?thesis by (rule createSecrets_issues)
    qed
    then obtain new where "issued st' = issued st1 @ new" "list_all (\<lambda>e. is_secret_upload (fst e)) new"
      by (auto simp: issues_def)
    then show ?thesis
      using i1 none by simp
  qed
qed

lemma manageSecrets_issues:
  assumes "manageSecrets rem so owner repo ss st = (r, st')"
  shows "issues (in_stage 6) st st'"
proof -
  from manageSecrets_key [OF assms] obtain out new where
    n: "issued st' = issued st @ (GetRepoPublicKey owner repo, out) # new"
      "list_all (\<lambda>e. is_secret_upload (fst e)) new"
    by blast
  have up: "is_secret_upload q \<Longrightarrow> in_stage 6 q" for q
    by (cases q) (simp_all add: in_stage_def)
  have "list_all (\<lambda>e. in_stage 6 (fst e)) ((GetRepoPublicKey owner repo, out) # new)"
    using n(2) up by (auto simp: list_all_iff in_stage_def)
  then show ?thesis
    using n(1) unfolding issues_def by blast
qed

text \<open>The six stages of a call, with the states between them.\<close>

lemma productionalizeRepository_stages:
  assumes "productionalizeRepository rem so owner repo config st0 = (res, st6)"
  obtains st1 st2 st3 st4 st5 tt ee ev vv bb where
    "(case teamPermissions config of
        None \<Rightarrow> ([], st0)
      | Some ts \<Rightarrow> addTeamPermissions rem owner repo ts st0) = (res_teamPermissions res, st1)"
    "(case topics config of
        None \<Rightarrow> ((False, None), st1)
      | Some ts \<Rightarrow> addTopics rem owner repo ts st1) = (tt, st2)"
    "(case environments config of
        None \<Rightarrow> (([], []), st2)
      | Some envs \<Rightarrow> createEnvironments rem owner repo envs st2) = (ee, st3)"
    "(case environmentVariables config of
        None \<Rightarrow> ((0, []), st3)
      | Some blocks \<Rightarrow> setEnvironmentVariables rem owner repo ev blocks st3) = (vv, st4)"
    "(case branchProtectionPreset config of
        None \<Rightarrow> ((False, None), st4)
      | Some preset \<Rightarrow>
          createBranchProtection rem owner repo preset (branchProtectionTargetBranch config) st4)
       = (bb, st5)"
    "(case secrets config of
        None \<Rightarrow> ((0, []), st5)
      | Some ss \<Rightarrow> manageSecrets rem so owner repo ss st5)
       = ((secretsCreated res, secretErrors res), st6)"
proof -
  obtain teams st1 where s1: "(case teamPermissions config of
        None \<Rightarrow> ([], st0)
      | Some ts \<Rightarrow> addTeamPermissions rem owner repo ts st0) = (teams, st1)"
    by (metis surj_pair)
  obtain ta te st2 where s2: "(case topics config of
        None \<Rightarrow> ((False, None), st1)
      | Some ts \<Rightarrow> addTopics rem owner repo ts st1) = ((ta, te), st2)"
    by (metis surj_pair)
  obtain created errs st3 where s3: "(case environments config of
        None \<Rightarrow> (([], []), st2)
      | Some envs \<Rightarrow> createEnvironments rem owner repo envs st2) = ((created, errs), st3)"
    by (metis surj_pair)
  let ?ev = "case environments config of
               None \<Rightarrow> []
             | Some envs \<Rightarrow> filter (\<lambda>n. n \<notin> set (map ec_environment errs)) (map env_name envs)"
  obtain vars verrs st4 where s4: "(case environmentVariables config of
        None \<Rightarrow> ((0, []), st3)
      | Some blocks \<Rightarrow> setEnvironmentVariables rem owner repo ?ev blocks st3) = ((vars, verrs), st4)"
    by (metis surj_pair)
  obtain bc be st5 where s5: "(case branchProtectionPreset config of
        None \<Rightarrow> ((False, None), st4)
      | Some preset \<Rightarrow>
          createBranchProtection rem owner repo preset (branchProtectionTargetBranch config) st4)
       = ((bc, be), st5)"
    by (metis surj_pair)
  obtain ns serrs st6' where s6: "(case secrets config of
        None \<Rightarrow> ((0, []), st5)
      | Some ss \<Rightarrow> manageSecrets rem so owner repo ss st5) = ((ns, serrs), st6')"
    by (metis surj_pair)
  have r: "res = \<lparr>res_teamPermissions = teams, topicsAdded = ta, topicsError = te,
           environmentsCreated = created, environmentErrors = errs,
           variablesCreated = vars, variableErrors = verrs,
           branchProtectionCreated = bc, branchProtectionError = be,
           secretsCreated = ns, secretErrors = serrs\<rparr>" and st: "st6 = st6'"
    using assms by (simp_all add: productionalizeRepository_def Let_def s1 s2 s3 s4 s5 s6)
  have f1: "(case teamPermissions config of
        None \<Rightarrow> ([], st0)
      | Some ts \<Rightarrow> addTeamPermissions rem owner repo ts st0) = (res_teamPermissions res, st1)"
    using s1 r by simp
  have f6: "(case secrets config of
        None \<Rightarrow> ((0, []), st5)
      | Some ss \<Rightarrow> manageSecrets rem so owner repo ss st5)
       = ((secretsCreated res, secretErrors res), st6)"
    using s6 r st by simp
  show ?thesis
    by (rule that [OF f1 s2 s3 s4 s5 f6])
qed

lemma optional_stage:
  assumes "(case x of None \<Rightarrow> (d, st) | Some v \<Rightarrow> f v st) = (r, st')"
    and "\<And>v r. f v st = (r, st') \<Longrightarrow> issues P st st'"
  shows "issues P st st'"
  using assms by (cases x) (auto simp: issues_refl)

lemma stages_issue:
  assumes "productionalizeRepository rem so owner repo config st0 = (res, st6)"
  obtains st1 st5 where
    "(case teamPermissions config of
        None \<Rightarrow> ([], st0)
      | Some ts \<Rightarrow> addTeamPermissions rem owner repo ts st0) = (res_teamPermissions res, st1)"
    "issues (\<lambda>q. stage_of q \<noteq> 1) st1 st6"
    "issues (\<lambda>q. stage_of q \<noteq> 6) st0 st5"
    "(case secrets config of
        None \<Rightarrow> ((0, []), st5)
      | Some ss \<Rightarrow> manageSecrets rem so owner repo ss st5)
       = ((secretsCreated res, secretErrors res), st6)"
    "topics config \<noteq> None \<longrightarrow> (\<exists>out. (GetAllTopics owner repo, out) \<in> set (issued st6))"
proof -
  from assms obtain st1 st2 st3 st4 st5 tt ee ev vv bb where
    s1: "(case teamPermissions config of
        None \<Rightarrow> ([], st0)
      | Some ts \<Rightarrow> addTeamPermissions rem owner repo ts st0) = (res_teamPermissions res, st1)"
    and s2: "(case topics config of
        None \<Rightarrow> ((False, None), st1)
      | Some ts \<Rightarrow> addTopics rem owner repo ts st1) = (tt, st2)"
    and s3: "(case environments config of
        None \<Rightarrow> (([], []), st2)
      | Some envs \<Rightarrow> createEnvironments rem owner repo envs st2) = (ee, st3)"
    and s4: "(case environmentVariables config of
        None \<Rightarrow> ((0, []), st3)
      | Some blocks \<Rightarrow> setEnvironmentVariables rem owner repo ev blocks st3) = (vv, st4)"
    and s5: "(case branchProtectionPreset config of
        None \<Rightarrow> ((False, None), st4)
      | Some preset \<Rightarrow>
          createBranchProtection rem owner repo preset (branchProtectionTargetBranch config) st4)
       = (bb, st5)"
    and s6: "(case secrets config of
        None \<Rightarrow> ((0, []), st5)
      | Some ss \<Rightarrow> manageSecrets rem so owner repo ss st5)
       = ((secretsCreated res, secretErrors res), st6)"
    by (rule productionalizeRepository_stages)
  have i1: "issues (in_stage 1) st0 st1"
    using s1 by (rule optional_stage) (rule addTeamPermissions_issues)
  have i2: "issues (in_stage 2) st1 st2"
    using s2 by (rule optional_stage) (rule addTopics_issues)
  have i3: "issues (in_stage 3) st2 st3"
    using s3 by (rule optional_stage) (rule createEnvironments_issues)
  have i4: "issues (in_stage 4) st3 st4"
    using s4 by (rule optional_stage) (rule setEnvironmentVariables_issues)
  have i5: "issues (in_stage 5) st4 st5"
    using s5 by (rule optional_stage) (rule createBranchProtection_issues)
  have i6: "issues (in_stage 6) st5 st6"
    using s6 by (rule optional_stage) (rule manageSecrets_issues)
  have later: "issues (\<lambda>q. stage_of q \<noteq> 1) st1 st6"
    by (intro issues_trans [OF issues_mono [OF i2] issues_trans [OF issues_mono [OF i3]
          issues_trans [OF issues_mono [OF i4] issues_trans [OF issues_mono [OF i5]
          issues_mono [OF i6]]]]])
       (simp_all add: in_stage_def)
  have earlier: "issues (\<lambda>q. stage_of q \<noteq> 6) st0 st5"
    by (intro issues_trans [OF issues_mono [OF i1] issues_trans [OF issues_mono [OF i2]
          issues_trans [OF issues_mono [OF i3] issues_trans [OF issues_mono [OF i4]
          issues_mono [OF i5]]]]])
       (simp_all add: in_stage_def)
  have tops: "\<exists>out. (GetAllTopics owner repo, out) \<in> set (issued st6)" if "topics config \<noteq> None"
  proof -
    from that s2 obtain ts where "addTopics rem owner repo ts st1 = (tt, st2)"
      by (cases "topics config") auto
    then obtain out where "(GetAllTopics owner repo, out) \<in> set (issued st2)"
      using addTopics_first by blast
    moreover have "issues (\<lambda>q. True) st2 st6"
      by (intro issues_trans [OF issues_mono [OF i3] issues_trans [OF issues_mono [OF i4]
            issues_trans [OF issues_mono [OF i5] issues_mono [OF i6]]]]) simp_all
    ultimately show ?thesis
      by (auto simp: issues_def)
  qed
  show ?thesis
    by (rule that [OF s1 later earlier s6]) (use tops in blast)
qed


















text \<open>
  Claim C1.  For the empty configuration \<open>{}\<close> the call returns, issues no request, and
  its result has every field set: the five sequences are empty, the two counts are 0,
  the two flags are false, and the two optional error texts are absent.
\<close>

theorem empty_configuration_result:
  "productionalizeRepository rem so owner repo empty_config st =
     (\<lparr>res_teamPermissions = [], topicsAdded = False, topicsError = None,
       environmentsCreated = [], environmentErrors = [], variablesCreated = 0,
       variableErrors = [], branchProtectionCreated = False, branchProtectionError = None,
       secretsCreated = 0, secretErrors = []\<rparr>, st)"
  by (simp add: productionalizeRepository_def empty_config_def)


text \<open>
  Claim C3.  When secrets are configured and the fetch of the public key is recorded as
  failed, the call still returns, with \<open>secretsCreated = 0\<close> and no entry in
  \<open>secretErrors\<close>; no create-or-update-secret request is issued, and the key was
  fetched once.
\<close>

theorem public_key_failure_abandons_secrets:
  assumes "secrets config = Some ss"
    and "productionalizeRepository rem so owner repo config (initial_state w) = (res, st')"
    and "(GetRepoPublicKey owner repo, Some m) \<in> set (issued st')"
  shows "secretsCreated res = 0 \<and> secretErrors res = [] \<and>
         filter (\<lambda>e. is_secret_upload (fst e)) (issued st') = [] \<and>
         length (filter (\<lambda>e. fst e = GetRepoPublicKey owner repo) (issued st')) = 1"
proof -
  from assms(2) obtain st1 st5 where
    s1: "(case teamPermissions config of
        None \<Rightarrow> ([], initial_state w)
      | Some ts \<Rightarrow> addTeamPermissions rem owner repo ts (initial_state w)) = (res_teamPermissions res, st1)"
    and later: "issues (\<lambda>q. stage_of q \<noteq> 1) st1 st'"
    and earlier: "issues (\<lambda>q. stage_of q \<noteq> 6) (initial_state w) st5"
    and s6: "(case secrets config of
        None \<Rightarrow> ((0, []), st5)
      | Some ss \<Rightarrow> manageSecrets rem so owner repo ss st5)
       = ((secretsCreated res, secretErrors res), st')"
    and tops: "topics config \<noteq> None \<longrightarrow> (\<exists>out. (GetAllTopics owner repo, out) \<in> set (issued st'))"
    by (rule stages_issue)
  from s6 assms(1) have "manageSecrets rem so owner repo ss st5 = ((secretsCreated res, secretErrors res), st')"
    by simp
  from manageSecrets_key [OF this] obtain out new where
    k: "issued st' = issued st5 @ (GetRepoPublicKey owner repo, out) # new"
      "list_all (\<lambda>e. is_secret_upload (fst e)) new"
      "out \<noteq> None \<longrightarrow> (secretsCreated res, secretErrors res) = (0, []) \<and> new = []"
    by blast
  from earlier obtain pre where pre: "issued st5 = pre" "\<forall>e\<in>set pre. stage_of (fst e) \<noteq> 6"
    by (auto simp: issues_def initial_state_def list_all_iff)
  have "(GetRepoPublicKey owner repo, Some m) \<notin> set pre"
    using pre(2) by fastforce
  moreover have "(GetRepoPublicKey owner repo, Some m) \<notin> set new"
    using k(2) by (fastforce simp: list_all_iff)
  ultimately have "out = Some m"
    using assms(3) k(1) pre(1) by auto
  then have z: "secretsCreated res = 0" "secretErrors res = []" "new = []"
    using k(3) by auto
  have p1: "filter (\<lambda>e. is_secret_upload (fst e)) pre = []"
  proof -
    have "\<not> is_secret_upload (fst e)" if "e \<in> set pre" for e
      using pre(2) that by (cases "fst e") auto
    then show ?thesis by (simp add: filter_empty_conv)
  qed
  have p2: "filter (\<lambda>e. fst e = GetRepoPublicKey owner repo) pre = []"
    using pre(2) by (fastforce simp: filter_empty_conv)
  show ?thesis
    using z k(1) pre(1) p1 p2 by simp
qed

lemmas example_run_defs =
  productionalizeRepository_def example_remote_def example_secrets_config_def empty_config_def
  initial_state_def perform_def failure_of_def addTopics_def union_topics_def manageSecrets_def





lemma example_secrets_run:
  "productionalizeRepository example_remote example_sodium ''test-org'' ''test-repo''
     example_secrets_config (initial_state 0) =
   (\<lparr>res_teamPermissions = [], topicsAdded = False, topicsError = None,
      environmentsCreated = [], environmentErrors = [], variablesCreated = 0,
      variableErrors = [], branchProtectionCreated = False, branchProtectionError = None,
      secretsCreated = 0, secretErrors = []\<rparr>,
    \<lparr>world = 0,
      issued = [(GetRepoPublicKey ''test-org'' ''test-repo'', Some ''Access denied'')],
      store = module_heap\<rparr>)"
  by (simp add: example_run_defs)


text \<open>Witness for C3: one secret, the fetch of the key failing with \<open>Access denied\<close>.\<close>

theorem public_key_failure_abandons_secrets_witness:
  "secrets example_secrets_config = Some [\<lparr>secret_name = ''SECRET'', secret_value = ''value''\<rparr>] \<and>
   (\<exists>res st'.
      productionalizeRepository example_remote example_sodium ''test-org'' ''test-repo''
        example_secrets_config (initial_state 0) = (res, st') \<and>
      (GetRepoPublicKey ''test-org'' ''test-repo'', Some ''Access denied'') \<in> set (issued st') \<and>
      secretsCreated res = 0 \<and> secretErrors res = [] \<and>
      filter (\<lambda>e. is_secret_upload (fst e)) (issued st') = [])"
proof -
  have a: "secrets example_secrets_config = Some [\<lparr>secret_name = ''SECRET'', secret_value = ''value''\<rparr>]"
    by (simp add: example_secrets_config_def empty_config_def)
  have f: "(GetRepoPublicKey ''test-org'' ''test-repo'', Some ''Access denied'') \<in>
      set (issued \<lparr>world = 0::nat,
        issued = [(GetRepoPublicKey ''test-org'' ''test-repo'', Some ''Access denied'')],
        store = module_heap\<rparr>)"
    by simp
  note r = public_key_failure_abandons_secrets [OF a example_secrets_run f]
  show ?thesis
    using a r by (simp add: example_secrets_run)
qed


section \<open>Properties of the runner\<close>

lemma trim_Nil: "trim [] = []"
  by (simp add: trim_def)

lemma trim_examples:
  "trim ''true'' = ''true''" "trim '' true '' = ''true''" "trim ''True'' = ''True''"
  "trim ''strict'' = ''strict''" "trim ''ghp_token'' = ''ghp_token''" "trim ''demo'' = ''demo''"
  by (simp_all add: trim_def is_space_def)

lemma parse_input_parse:
  "parse_input env nm parser acts = (acts', r) \<Longrightarrow> list_all is_parse acts \<Longrightarrow> list_all is_parse acts'"
  by (auto simp: parse_input_def split: if_splits)

lemma parse_productionalization_parse:
  assumes "parse_productionalization env = (acts, r)"
  shows "list_all is_parse acts"
proof -
  obtain a1 r1 where p1: "parse_input env ''team-permissions'' (parseTeamPermissions env) [] = (a1, r1)"
    by (metis surj_pair)
  obtain a2 r2 where p2: "parse_input env ''repository-topics'' (parseTopics env) a1 = (a2, r2)"
    by (metis surj_pair)
  obtain a3 r3 where p3: "parse_input env ''environments'' (parseEnvironments env) a2 = (a3, r3)"
    by (metis surj_pair)
  obtain a4 r4 where p4:
    "parse_input env ''environment-variables'' (parseEnvironmentVariables env) a3 = (a4, r4)"
    by (metis surj_pair)
  obtain a5 r5 where p5:
    "parse_input env ''branch-protection-preset'' (parseBranchProtectionPreset env) a4 = (a5, r5)"
    by (metis surj_pair)
  obtain a6 r6 where p6: "parse_input env ''repository-secrets'' (parseSecrets env) a5 = (a6, r6)"
    by (metis surj_pair)
  have l1: "list_all is_parse a1" using parse_input_parse [OF p1] by simp
  have l2: "list_all is_parse a2" by (rule parse_input_parse [OF p2 l1])
  have l3: "list_all is_parse a3" by (rule parse_input_parse [OF p3 l2])
  have l4: "list_all is_parse a4" by (rule parse_input_parse [OF p4 l3])
  have l5: "list_all is_parse a5" by (rule parse_input_parse [OF p5 l4])
  have l6: "list_all is_parse a6" by (rule parse_input_parse [OF p6 l5])
  have "acts \<in> {a1, a2, a3, a4, a5, a6}"
    using assms p1 p2 p3 p4 p5 p6
    by (auto simp: parse_productionalization_def split: sum.splits)
  then show ?thesis
    using l1 l2 l3 l4 l5 l6 by auto
qed

lemma getInitializer_parse:
  "getInitializer env = (acts, r) \<Longrightarrow> list_all is_parse acts"
  by (auto simp: getInitializer_def Let_def parse_productionalization_parse
      split: sum.splits prod.splits if_splits)

lemma parse_not_call:
  "list_all is_parse acts \<Longrightarrow> ProductionalizeRepository owner repo config \<notin> set acts"
  by (auto simp: list_all_iff)

lemma getInitializer_off:
  assumes "getInput env ''productionalize'' \<noteq> ''true''"
  shows "\<exists>r. getInitializer env = ([], r) \<and>
           (\<forall>input. r = Inr input \<longrightarrow> productionalize input = None \<and> productionalizationConfig input = None)"
  using assms
  by (auto simp: getInitializer_def DEFAULT_PRODUCTIONALIZE_def Let_def split: sum.splits)

lemma getInitializer_on:
  assumes "getInput env ''productionalize'' = ''true''" "getInitializer env = (acts, Inr input)"
  shows "\<exists>config. parse_productionalization env = (acts, Inr config) \<and>
           productionalize input = Some True \<and> productionalizationConfig input = Some config \<and>
           defaultBranch input = or_else (getInput env ''default-branch'') ''main''"
  using assms
  by (auto simp: getInitializer_def Let_def split: sum.splits prod.splits)

lemma parse_productionalization_target:
  assumes "parse_productionalization env = (acts, Inr config)" "branchProtectionPreset config = Some p"
  shows "branchProtectionTargetBranch config =
           Some (or_else (getInput env ''branch-protection-target-branch'') DEFAULT_BRANCH_PROTECTION_TARGET)"
  using assms
  by (auto simp: parse_productionalization_def split: sum.splits prod.splits option.splits)

text \<open>
  The productionalization call of a run: it is there exactly when the initializer and the
  repository service succeed and the initializer has set the flag, and then it is the
  call on the two halves of the full name.
\<close>

lemma run_call:
  assumes "ProductionalizeRepository owner repo config \<in> set (run env)"
  shows "\<exists>acts input result.
           getInitializer env = (acts, Inr input) \<and> createRepository env input = Inr result \<and>
           productionalize input = Some True \<and> productionalizationConfig input = Some config \<and>
           owner = (case split_slash (full_name result) of [] \<Rightarrow> [] | p # _ \<Rightarrow> p) \<and>
           repo = (case split_slash (full_name result) of _ # r # _ \<Rightarrow> Some r | _ \<Rightarrow> None)"
proof -
  obtain acts r where i: "getInitializer env = (acts, r)"
    by (metis surj_pair)
  have n: "ProductionalizeRepository owner repo config \<notin> set acts"
    by (rule parse_not_call [OF getInitializer_parse [OF i]])
  show ?thesis
  proof (cases r)
    case (Inl m)
    then show ?thesis using assms i n by (simp add: run_def)
  next
    case (Inr input)
    show ?thesis
    proof (cases "createRepository env input")
      case (Inl e)
      then show ?thesis using assms i n Inr by (simp add: run_def)
    next
      case c: (Inr result)
      have t: "ProductionalizeRepository owner repo config \<notin>
                 set (case productionalize_service env ow rp cf of
                        Inl e \<Rightarrow> [SetFailed (failed_message e)]
                      | Inr prodResult \<Rightarrow>
                          [SetOutput ''productionalization-status'' (OJson prodResult)])"
        for ow rp cf
        by (simp split: sum.split)
      show ?thesis
        using assms i n Inr c t
        by (auto simp: run_def Let_def split: option.splits bool.splits)
    qed
  qed
qed

text \<open>
  Claim C10.  The productionalization pass is guarded by the comparison with \<open>true\<close> of
  the \<open>productionalize\<close> input after \<open>core.getInput\<close> has removed the white space at its
  two ends.  \<open>productionalizeRepository\<close> is called exactly when that trimmed value is
  \<open>true\<close> and both the initialization and the creation of the repository succeed.  For
  every input whose trimmed value is not \<open>true\<close> (\<open>True\<close>, \<open>1\<close>, \<open>yes\<close>, the empty string,
  ...) the run calls no parser, does not call \<open>productionalizeRepository\<close> and sets no
  \<open>productionalization-status\<close> output.  When the call is made and returns, the output is
  set to its result.
\<close>

theorem productionalization_gate:
  "((\<exists>owner repo config. ProductionalizeRepository owner repo config \<in> set (run env)) \<longleftrightarrow>
      trim (inputs env ''productionalize'') = ''true'' \<and>
      (\<exists>acts input result.
         getInitializer env = (acts, Inr input) \<and> createRepository env input = Inr result)) \<and>
   (trim (inputs env ''productionalize'') \<noteq> ''true'' \<longrightarrow>
      filter productionalization_action (run env) = []) \<and>
   (\<forall>owner repo config r.
      ProductionalizeRepository owner repo config \<in> set (run env) \<longrightarrow>
      productionalize_service env owner repo config = Inr r \<longrightarrow>
      SetOutput ''productionalization-status'' (OJson r) \<in> set (run env))"
proof -
  have call: "(\<exists>owner repo config. ProductionalizeRepository owner repo config \<in> set (run env)) \<longleftrightarrow>
      trim (inputs env ''productionalize'') = ''true'' \<and>
      (\<exists>acts input result.
         getInitializer env = (acts, Inr input) \<and> createRepository env input = Inr result)"
  proof (rule iffI)
    assume "\<exists>owner repo config. ProductionalizeRepository owner repo config \<in> set (run env)"
    then obtain owner repo config acts input result
      where i: "getInitializer env = (acts, Inr input)"
        and c: "createRepository env input = Inr result"
        and p: "productionalize input = Some True"
      using run_call by blast
    have "getInput env ''productionalize'' = ''true''"
      using i p getInitializer_off [of env] by (cases "getInput env ''productionalize'' = ''true''") auto
    then show "trim (inputs env ''productionalize'') = ''true'' \<and>
        (\<exists>acts input result.
           getInitializer env = (acts, Inr input) \<and> createRepository env input = Inr result)"
      using i c by (auto simp: getInput_def)
  next
    assume "trim (inputs env ''productionalize'') = ''true'' \<and>
        (\<exists>acts input result.
           getInitializer env = (acts, Inr input) \<and> createRepository env input = Inr result)"
    then obtain acts input result
      where on: "getInput env ''productionalize'' = ''true''"
        and i: "getInitializer env = (acts, Inr input)"
        and c: "createRepository env input = Inr result"
      by (auto simp: getInput_def)
    then obtain config where cfg: "productionalize input = Some True" "productionalizationConfig input = Some config"
      using getInitializer_on by blast
    let ?parts = "split_slash (full_name result)"
    let ?owner = "case ?parts of [] \<Rightarrow> [] | p # _ \<Rightarrow> p"
    let ?repo = "case ?parts of _ # r # _ \<Rightarrow> Some r | _ \<Rightarrow> None"
    have "ProductionalizeRepository ?owner ?repo config \<in> set (run env)"
      using i c cfg by (simp add: run_def Let_def)
    then show "\<exists>owner repo config. ProductionalizeRepository owner repo config \<in> set (run env)"
      by blast
  qed
  have skip: "trim (inputs env ''productionalize'') \<noteq> ''true'' \<longrightarrow>
      filter productionalization_action (run env) = []"
  proof
    assume "trim (inputs env ''productionalize'') \<noteq> ''true''"
    then have off: "getInput env ''productionalize'' \<noteq> ''true''"
      by (simp add: getInput_def)
    then obtain r where r: "getInitializer env = ([], r)"
      and n: "\<forall>input. r = Inr input \<longrightarrow> productionalize input = None \<and> productionalizationConfig input = None"
      using getInitializer_off by blast
    show "filter productionalization_action (run env) = []"
    proof (cases r)
      case (Inl e)
      then show ?thesis using r by (simp add: run_def)
    next
      case (Inr input)
      then show ?thesis using r n by (simp add: run_def split: sum.splits)
    qed
  qed
  have out: "\<forall>owner repo config r.
      ProductionalizeRepository owner repo config \<in> set (run env) \<longrightarrow>
      productionalize_service env owner repo config = Inr r \<longrightarrow>
      SetOutput ''productionalization-status'' (OJson r) \<in> set (run env)"
  proof (intro allI impI)
    fix owner repo config r
    assume m: "ProductionalizeRepository owner repo config \<in> set (run env)"
      and s: "productionalize_service env owner repo config = Inr r"
    from run_call [OF m] obtain acts input result
      where i: "getInitializer env = (acts, Inr input)"
        and c: "createRepository env input = Inr result"
        and p: "productionalize input = Some True" "productionalizationConfig input = Some config"
        and o: "owner = (case split_slash (full_name result) of [] \<Rightarrow> [] | p # _ \<Rightarrow> p)"
          "repo = (case split_slash (full_name result) of _ # r # _ \<Rightarrow> Some r | _ \<Rightarrow> None)"
      by blast
    show "SetOutput ''productionalization-status'' (OJson r) \<in> set (run env)"
      using i c p s unfolding o by (simp add: run_def Let_def)
  qed
  show ?thesis
    by (rule conjI [OF call conjI [OF skip out]])
qed

lemma example_getInitializer:
  "trim flag = ''true'' \<Longrightarrow>
   getInitializer (example_env flag ''strict'') = ([Parse ''branch-protection-preset''], Inr example_input)"
  by (simp add: getInitializer_def getInput_required_def getInput_def parse_productionalization_def
      parse_input_def example_env_def example_parsePreset_def or_else_def example_input_def
      example_preset_config_def trim_Nil trim_examples
      DEFAULT_BRANCH_PROTECTION_TARGET_def DEFAULT_PRODUCTIONALIZE_def)

lemma example_createRepository:
  "createRepository (example_env flag preset) example_input =
     Inr \<lparr>id = 1, full_name = ''acme/demo'', html_url = ''https://example.test''\<rparr>"
  by (simp add: example_env_def example_input_def)

lemma example_run:
  "trim flag = ''true'' \<Longrightarrow>
   run (example_env flag ''strict'') =
     [Parse ''branch-protection-preset'', CreateRepository example_input,
      SetOutput ''repository-url'' (OStr ''https://example.test''),
      SetOutput ''repository-name'' (OStr ''acme/demo''),
      SetOutput ''repository-id'' (ONum 1),
      ProductionalizeRepository ''acme'' (Some ''demo'') example_preset_config,
      SetOutput ''productionalization-status'' (OJson example_result)]"
  by (simp add: run_def example_getInitializer example_createRepository)
    (simp add: example_input_def example_env_def)

lemma example_run_no_repository:
  "run example_env_no_repository =
     [Parse ''branch-protection-preset'', CreateRepository example_input,
      SetFailed ''Failed to create repository'']"
proof -
  have "getInitializer example_env_no_repository =
          ([Parse ''branch-protection-preset''], Inr example_input)"
    by (simp add: getInitializer_def getInput_required_def getInput_def parse_productionalization_def
        parse_input_def example_env_no_repository_def example_env_def example_parsePreset_def
        or_else_def example_input_def example_preset_config_def trim_Nil trim_examples
        DEFAULT_BRANCH_PROTECTION_TARGET_def DEFAULT_PRODUCTIONALIZE_def)
  then show ?thesis
    by (simp add: run_def) (simp add: example_env_no_repository_def)
qed

text \<open>
  Witness for C10: a run with the input \<open>True\<close>, which skips the pass, and a run with the
  input \<open>true\<close> between two spaces, which makes the call and sets the output.
\<close>

theorem productionalization_gate_witness:
  "trim (inputs (example_env ''True'' []) ''productionalize'') \<noteq> ''true'' \<and>
   filter productionalization_action (run (example_env ''True'' [])) = [] \<and>
   trim (inputs (example_env '' true '' ''strict'') ''productionalize'') = ''true'' \<and>
   getInitializer (example_env '' true '' ''strict'') =
     ([Parse ''branch-protection-preset''], Inr example_input) \<and>
   createRepository (example_env '' true '' ''strict'') example_input =
     Inr \<lparr>id = 1, full_name = ''acme/demo'', html_url = ''https://example.test''\<rparr> \<and>
   ProductionalizeRepository ''acme'' (Some ''demo'') example_preset_config
     \<in> set (run (example_env '' true '' ''strict'')) \<and>
   productionalize_service (example_env '' true '' ''strict'') ''acme'' (Some ''demo'')
     example_preset_config = Inr example_result \<and>
   SetOutput ''productionalization-status'' (OJson example_result)
     \<in> set (run (example_env '' true '' ''strict''))"
proof -
  have off: "trim (inputs (example_env ''True'' []) ''productionalize'') \<noteq> ''true''"
    by (simp add: example_env_def trim_examples)
  have on: "trim (inputs (example_env '' true '' ''strict'') ''productionalize'') = ''true''"
    by (simp add: example_env_def trim_examples)
  have i: "getInitializer (example_env '' true '' ''strict'') =
             ([Parse ''branch-protection-preset''], Inr example_input)"
    by (simp add: example_getInitializer trim_examples)
  have m: "ProductionalizeRepository ''acme'' (Some ''demo'') example_preset_config
             \<in> set (run (example_env '' true '' ''strict''))"
    by (simp add: example_run trim_examples)
  have s: "productionalize_service (example_env '' true '' ''strict'') ''acme'' (Some ''demo'')
             example_preset_config = Inr example_result"
    by (simp add: example_env_def)
  note g = productionalization_gate [of "example_env ''True'' []", THEN conjunct2, THEN conjunct1,
      rule_format, OF off]
  note h = productionalization_gate [of "example_env '' true '' ''strict''", THEN conjunct2,
      THEN conjunct2, rule_format, OF m s]
  show ?thesis
    using off g on i example_createRepository m s h by simp
qed

text \<open>
  Counterexample for C10 as the specification states it.  The input \<open>true\<close> between two
  spaces is not the string \<open>true\<close>, and the run parses the productionalization inputs,
  calls \<open>productionalizeRepository\<close> and sets the output.  The input \<open>true\<close> with a
  repository service that throws gives a run that parses the inputs and never calls
  \<open>productionalizeRepository\<close>.
\<close>

theorem productionalization_gate_counterexample:
  "inputs (example_env '' true '' ''strict'') ''productionalize'' \<noteq> ''true'' \<and>
   filter productionalization_action (run (example_env '' true '' ''strict'')) =
     [Parse ''branch-protection-preset'',
      ProductionalizeRepository ''acme'' (Some ''demo'') example_preset_config,
      SetOutput ''productionalization-status'' (OJson example_result)] \<and>
   inputs example_env_no_repository ''productionalize'' = ''true'' \<and>
   filter productionalization_action (run example_env_no_repository) =
     [Parse ''branch-protection-preset'']"
  by (simp add: example_run example_run_no_repository trim_examples)
    (simp add: example_env_def example_env_no_repository_def)

text \<open>
  Claim C9.  When the \<open>default-branch\<close> input is absent the default branch of the
  repository is \<open>main\<close>, and when the \<open>branch-protection-target-branch\<close> input is absent
  the target branch of the configuration is \<open>master\<close>; so with both defaults and a preset,
  the ruleset that \<open>getBranchProtectionPreset\<close> builds, after any earlier calls, has the
  single include \<open>refs/heads/master\<close>, which is not the ref of the default branch.
\<close>

theorem default_branch_not_protected:
  assumes "getInput env ''default-branch'' = []"
    and "getInput env ''branch-protection-target-branch'' = []"
    and "getInitializer env = (acts, Inr input)"
    and "productionalizationConfig input = Some config"
    and "branchProtectionPreset config = Some p"
  shows "defaultBranch input = ''main'' \<and>
         branchProtectionTargetBranch config = Some ''master'' \<and>
         (\<exists>h ruleset h' doc.
            calls cs module_heap = Some h \<and>
            getBranchProtectionPreset p (branchProtectionTargetBranch config) h = Some (ruleset, h') \<and>
            read_ruleset h' ruleset = Some doc \<and>
            rs_include doc = [''refs/heads/master''] \<and>
            ''refs/heads/'' @ defaultBranch input \<notin> set (rs_include doc))"
proof -
  have flag: "getInput env ''productionalize'' = ''true''"
    using assms(3,4) getInitializer_off [of env] by (cases "getInput env ''productionalize'' = ''true''") auto
  then obtain config' where p: "parse_productionalization env = (acts, Inr config')"
    and c: "productionalizationConfig input = Some config'"
    and d: "defaultBranch input = or_else (getInput env ''default-branch'') ''main''"
    using getInitializer_on [OF _ assms(3)] by blast
  have main: "defaultBranch input = ''main''"
    using d assms(1) by (simp add: or_else_def)
  have "config' = config" using c assms(4) by simp
  then have tb: "branchProtectionTargetBranch config = Some ''master''"
    using parse_productionalization_target [OF p] assms(2,5)
    by (simp add: or_else_def DEFAULT_BRANCH_PROTECTION_TARGET_def)
  obtain v1 v2 v3 ext where h: "calls cs module_heap = Some (catalog_heap v1 v2 v3 @ ext)"
    using calls_catalog [of cs "JRef 0" "JRef 9" "JRef 18" "[]"]
    by (auto simp: module_heap_catalog)
  let ?h' = "after_call p ''refs/heads/master'' v1 v2 v3 ext"
  have g: "getBranchProtectionPreset p (branchProtectionTargetBranch config) (catalog_heap v1 v2 v3 @ ext) =
             Some (JRef (28 + length ext), ?h')"
    by (simp add: tb getBranchProtectionPreset_catalog target_of_def)
  obtain doc where r: "read_ruleset ?h' (JRef (28 + length ext)) = Some doc"
    and i: "rs_include doc = [''refs/heads/master'']"
    by (simp add: read_after_call)
  have "''refs/heads/'' @ defaultBranch input \<notin> set (rs_include doc)"
    by (simp add: i main)
  then show ?thesis
    using main tb h g r i by blast
qed

text \<open>Witness for C9: the example run with the preset \<open>strict\<close> and both branch inputs absent.\<close>

theorem default_branch_not_protected_witness:
  "getInput (example_env ''true'' ''strict'') ''default-branch'' = [] \<and>
   getInput (example_env ''true'' ''strict'') ''branch-protection-target-branch'' = [] \<and>
   (\<exists>acts input config.
      getInitializer (example_env ''true'' ''strict'') = (acts, Inr input) \<and>
      productionalizationConfig input = Some config \<and>
      branchProtectionPreset config = Some strict \<and>
      defaultBranch input = ''main'' \<and>
      branchProtectionTargetBranch config = Some ''master'' \<and>
      (\<exists>ruleset h' doc.
         getBranchProtectionPreset strict (branchProtectionTargetBranch config) module_heap = Some (ruleset, h') \<and>
         read_ruleset h' ruleset = Some doc \<and>
         rs_include doc = [''refs/heads/master'']))"
proof -
  let ?env = "example_env ''true'' ''strict''"
  have a1: "getInput ?env ''default-branch'' = []"
    by (simp add: getInput_def example_env_def trim_Nil)
  have a2: "getInput ?env ''branch-protection-target-branch'' = []"
    by (simp add: getInput_def example_env_def trim_Nil)
  have a3: "getInitializer ?env = ([Parse ''branch-protection-preset''], Inr example_input)"
    by (simp add: example_getInitializer trim_examples)
  have a4: "productionalizationConfig example_input = Some example_preset_config"
    by (simp add: example_input_def)
  have a5: "branchProtectionPreset example_preset_config = Some strict"
    by (simp add: example_preset_config_def)
  have m: "defaultBranch example_input = ''main''"
    by (simp add: example_input_def)
  have t: "branchProtectionTargetBranch example_preset_config = Some ''master''"
    by (simp add: example_preset_config_def)
  from default_branch_not_protected [OF a1 a2 a3 a4 a5, of "[]"]
  obtain ruleset h' doc where
    "getBranchProtectionPreset strict (branchProtectionTargetBranch example_preset_config) module_heap =
       Some (ruleset, h')"
    "read_ruleset h' ruleset = Some doc" "rs_include doc = [''refs/heads/master'']"
    by auto
  with a1 a2 a3 a4 a5 m t show ?thesis
    by blast
qed

end
